theory Spec2Isabelle
  imports Main "HOL-Library.AList"
begin

section \<open>Text and time as the plugin sees them\<close>

text \<open>
  The plugin (\<^verbatim>\<open>src/main.py\<close>) keeps one record per user id in \<^verbatim>\<open>users.json\<close> and
  answers chat commands. Everything it decides depends on three library notions: Python
  strings, naive \<^verbatim>\<open>datetime\<close> values, and the two conversions
  \<^verbatim>\<open>strptime(s, "%Y-%m-%d")\<close> and \<^verbatim>\<open>strftime("%Y-%m-%d")\<close>.

  A Python \<^verbatim>\<open>str\<close> is a list of code points. The command words of the plugin are
  Chinese, so the code points are natural numbers rather than 8-bit characters.

  Two conventions hold throughout. A function that calls \<^verbatim>\<open>datetime.now()\<close> takes the
  clock reading as its argument \<open>now\<close>, one reading for the whole call. The two files
  are taken as the documents they hold: reading and writing them does not fail.
\<close>

type_synonym pystr = "nat list"

definition str :: "string \<Rightarrow> pystr" where
  "str s = map of_char s"

text \<open>
  A naive \<^verbatim>\<open>datetime\<close> is the number of microseconds since 0001-01-01 00:00:00, the
  smallest value of the type. The largest is 9999-12-31 23:59:59.999999; its date has
  the ordinal 3652059 (\<^verbatim>\<open>date.max.toordinal()\<close>).
\<close>

type_synonym datetime = int

definition US_PER_DAY :: int where
  "US_PER_DAY = 86400000000"

definition MAXORDINAL :: int where
  "MAXORDINAL = 3652059"

definition dt_valid :: "datetime \<Rightarrow> bool" where
  "dt_valid t = (0 \<le> t \<and> t < MAXORDINAL * US_PER_DAY)"

definition toordinal :: "datetime \<Rightarrow> int" where
  "toordinal t = t div US_PER_DAY + 1"

definition midnight :: "int \<Rightarrow> datetime" where
  "midnight n = (n - 1) * US_PER_DAY"

text \<open>
  The exceptions that can leave the functions modelled here: a missing dictionary key,
  and date arithmetic that leaves the range of \<^verbatim>\<open>datetime\<close>. A \<^verbatim>\<open>ValueError\<close> of
  \<^verbatim>\<open>strptime\<close> or \<^verbatim>\<open>int\<close> never escapes (the source catches it at once), so parsing
  returns an option.
\<close>

datatype py_exn = KeyError | OverflowError

text \<open>
  \<^verbatim>\<open>t + timedelta(days=d)\<close>: the \<^verbatim>\<open>timedelta\<close> itself must have at most 999999999
  days, and the sum must be a \<^verbatim>\<open>datetime\<close>; both failures are \<^verbatim>\<open>OverflowError\<close>.
\<close>

definition add_days :: "datetime \<Rightarrow> int \<Rightarrow> py_exn + datetime" where
  "add_days t d =
     (if d < - 999999999 \<or> 999999999 < d then Inl OverflowError
      else if dt_valid (t + d * US_PER_DAY) then Inr (t + d * US_PER_DAY)
      else Inl OverflowError)"

text \<open>\<^verbatim>\<open>(a - b).days\<close>: a \<^verbatim>\<open>timedelta\<close> is normalised so that its \<^verbatim>\<open>days\<close> is the floor.\<close>

definition delta_days :: "datetime \<Rightarrow> datetime \<Rightarrow> int" where
  "delta_days a b = (a - b) div US_PER_DAY"

subsection \<open>The proleptic Gregorian calendar of the datetime module\<close>

definition is_leap :: "int \<Rightarrow> bool" where
  "is_leap y = (y mod 4 = 0 \<and> (y mod 100 \<noteq> 0 \<or> y mod 400 = 0))"

definition days_before_year :: "int \<Rightarrow> int" where
  "days_before_year y = (let y1 = y - 1 in y1 * 365 + y1 div 4 - y1 div 100 + y1 div 400)"

definition DAYS_IN_MONTH :: "int list" where
  "DAYS_IN_MONTH = [-1, 31, 28, 31, 30, 31, 30, 31, 31, 30, 31, 30, 31]"

definition DAYS_BEFORE_MONTH :: "int list" where
  "DAYS_BEFORE_MONTH = [-1, 0, 31, 59, 90, 120, 151, 181, 212, 243, 273, 304, 334]"

definition days_in_month :: "int \<Rightarrow> int \<Rightarrow> int" where
  "days_in_month y m = (if m = 2 \<and> is_leap y then 29 else DAYS_IN_MONTH ! nat m)"

definition days_before_month :: "int \<Rightarrow> int \<Rightarrow> int" where
  "days_before_month y m =
     DAYS_BEFORE_MONTH ! nat m + (if m > 2 \<and> is_leap y then 1 else 0)"

definition ymd2ord :: "int \<Rightarrow> int \<Rightarrow> int \<Rightarrow> int" where
  "ymd2ord y m d = days_before_year y + days_before_month y m + d"

text \<open>Month and day from the zero-based day of the year (the tail of \<^verbatim>\<open>_ord2ymd\<close>).\<close>

definition doy2md :: "bool \<Rightarrow> int \<Rightarrow> int \<times> int" where
  "doy2md leapyear n =
     (let month = (n + 50) div 32;
          preceding = DAYS_BEFORE_MONTH ! nat month
                      + (if month > 2 \<and> leapyear then 1 else 0)
      in if preceding > n
         then (month - 1,
               n - (preceding - (DAYS_IN_MONTH ! nat (month - 1)
                                  + (if month - 1 = 2 \<and> leapyear then 1 else 0))) + 1)
         else (month, n - preceding + 1))"

definition ord2ymd :: "int \<Rightarrow> int \<times> int \<times> int" where
  "ord2ymd n =
     (let n0 = n - 1;
          n400 = n0 div 146097; r400 = n0 mod 146097;
          n100 = r400 div 36524; r100 = r400 mod 36524;
          n4 = r100 div 1461; r4 = r100 mod 1461;
          n1 = r4 div 365; r1 = r4 mod 365;
          year = n400 * 400 + 1 + n100 * 100 + n4 * 4 + n1
      in if n1 = 4 \<or> n100 = 4 then (year - 1, 12, 31)
         else let leapyear = (n1 = 3 \<and> (n4 \<noteq> 24 \<or> n100 = 3));
                  (month, day) = doy2md leapyear r1
              in (year, month, day))"

subsection \<open>Dates as text: the format %Y-%m-%d\<close>

text \<open>
  Dates are read and written with the ASCII digits. (\<^verbatim>\<open>strptime\<close> also reads a date
  written with the decimal digits of another script; \<open>strptime_ymd\<close> refuses it, so what
  is stated below of a stored date is stated of one that parses here.)
\<close>

definition is_digit :: "nat \<Rightarrow> bool" where
  "is_digit c = (48 \<le> c \<and> c \<le> 57)"

definition dval :: "nat \<Rightarrow> int" where
  "dval c = int c - 48"

definition digit :: "int \<Rightarrow> nat" where
  "digit k = 48 + nat k"

definition zfill2 :: "int \<Rightarrow> pystr" where
  "zfill2 n = [digit (n div 10), digit (n mod 10)]"

definition zfill4 :: "int \<Rightarrow> pystr" where
  "zfill4 n = [digit (n div 1000), digit (n div 100 mod 10), digit (n div 10 mod 10),
               digit (n mod 10)]"

text \<open>
  The text of the date with a given ordinal. The year is printed with four digits, the
  form \<^verbatim>\<open>strptime\<close> reads back. From the year 1000 on (ordinal 364878) this is the
  text of \<^verbatim>\<open>strftime\<close> on every platform; for earlier years the C library decides, and
  glibc prints no leading zeros. A date that the plugin prints is never before the date of
  its clock, except the target of a scan with a day count chosen by the caller.
\<close>

definition YEAR_1000 :: int where
  "YEAR_1000 = 364878"

definition date_string :: "int \<Rightarrow> pystr" where
  "date_string n = (case ord2ymd n of (y, m, d) \<Rightarrow> zfill4 y @ [45] @ zfill2 m @ [45] @ zfill2 d)"

definition strftime_ymd :: "datetime \<Rightarrow> pystr" where
  "strftime_ymd t = date_string (toordinal t)"

text \<open>
  \<^verbatim>\<open>strptime\<close> matches the regular expression of the format from the start of the text
  and refuses text that remains. The month is \<^verbatim>\<open>1[0-2]|0[1-9]|[1-9]\<close> followed by the
  dash; the day is \<^verbatim>\<open>3[0-1]|[1-2]\d|0[1-9]|[1-9]| [1-9]\<close> and must end the text.
\<close>

fun month_token :: "pystr \<Rightarrow> (int \<times> pystr) option" where
  "month_token (a # b # c # rest) =
     (if a = 49 \<and> 48 \<le> b \<and> b \<le> 50 \<and> c = 45 then Some (10 + dval b, rest)
      else if a = 48 \<and> 49 \<le> b \<and> b \<le> 57 \<and> c = 45 then Some (dval b, rest)
      else if 49 \<le> a \<and> a \<le> 57 \<and> b = 45 then Some (dval a, c # rest)
      else None)"
| "month_token [a, b] = (if 49 \<le> a \<and> a \<le> 57 \<and> b = 45 then Some (dval a, []) else None)"
| "month_token _ = None"

fun day_token :: "pystr \<Rightarrow> int option" where
  "day_token [a, b] =
     (if a = 51 \<and> 48 \<le> b \<and> b \<le> 49 then Some (30 + dval b)
      else if 49 \<le> a \<and> a \<le> 50 \<and> is_digit b then Some (10 * dval a + dval b)
      else if a = 48 \<and> 49 \<le> b \<and> b \<le> 57 then Some (dval b)
      else if a = 32 \<and> 49 \<le> b \<and> b \<le> 57 then Some (dval b)
      else None)"
| "day_token [a] = (if 49 \<le> a \<and> a \<le> 57 then Some (dval a) else None)"
| "day_token _ = None"

text \<open>
  The result is the midnight of the date, or \<open>None\<close> for \<^verbatim>\<open>ValueError\<close>: no match, text
  left over, the year 0, or a day the month does not have.
\<close>

fun strptime_ymd :: "pystr \<Rightarrow> datetime option" where
  "strptime_ymd (y1 # y2 # y3 # y4 # dash # rest) =
     (if is_digit y1 \<and> is_digit y2 \<and> is_digit y3 \<and> is_digit y4 \<and> dash = 45 then
        (case month_token rest of
           None \<Rightarrow> None
         | Some (m, rest') \<Rightarrow>
             (case day_token rest' of
                None \<Rightarrow> None
              | Some d \<Rightarrow>
                  (let y = 1000 * dval y1 + 100 * dval y2 + 10 * dval y3 + dval y4
                   in if 1 \<le> y \<and> d \<le> days_in_month y m
                      then Some (midnight (ymd2ord y m d)) else None)))
      else None)"
| "strptime_ymd _ = None"

section \<open>The record store (class UserManager)\<close>

text \<open>
  A user record is a JSON object with up to three string fields; a field that the
  document lacks is \<open>None\<close>. The users document is a dictionary in insertion order:
  an association list with distinct keys. It stands for the content of
  \<^verbatim>\<open>users.json\<close>, which \<^verbatim>\<open>load_users\<close> reads and \<^verbatim>\<open>save_users\<close> overwrites.
\<close>

record user_info =
  platform_username :: "pystr option"
  start_date :: "pystr option"
  expire_date :: "pystr option"

type_synonym users = "(pystr \<times> user_info) list"

text \<open>
  \<^verbatim>\<open>add_or_update_user(user_id, username=None, extend_days=0)\<close> at the clock reading
  \<open>now\<close>. The result is the exception that escapes, or the document that is saved
  together with the record returned. When an exception escapes, \<^verbatim>\<open>save_users\<close> has not
  been called: the document on disk is the old one.
\<close>

definition add_or_update_user ::
  "datetime \<Rightarrow> users \<Rightarrow> pystr \<Rightarrow> pystr option \<Rightarrow> int \<Rightarrow> py_exn + (users \<times> user_info)" where
  "add_or_update_user now users user_id username extend_days =
     (case map_of users user_id of
        None \<Rightarrow>
          (case (if extend_days > 0 then add_days now extend_days else Inr now) of
             Inl e \<Rightarrow> Inl e
           | Inr expire \<Rightarrow>
               (let info = \<lparr>platform_username =
                              Some (case username of None \<Rightarrow> [] | Some u \<Rightarrow> u),
                            start_date = Some (strftime_ymd now),
                            expire_date = Some (strftime_ymd expire)\<rparr>
                in Inr (AList.update user_id info users, info)))
      | Some info0 \<Rightarrow>
          (let info1 = (case username of
                          None \<Rightarrow> info0
                        | Some u \<Rightarrow> info0\<lparr>platform_username := Some u\<rparr>)
           in if extend_days > 0 then
                (case expire_date info1 of
                   None \<Rightarrow> Inl KeyError
                 | Some s \<Rightarrow>
                     (case (case strptime_ymd s of
                              Some current_expire \<Rightarrow>
                                add_days (max current_expire now) extend_days
                            | None \<Rightarrow> add_days now extend_days) of
                        Inl e \<Rightarrow> Inl e
                      | Inr new_expire \<Rightarrow>
                          (let info2 = info1\<lparr>expire_date := Some (strftime_ymd new_expire)\<rparr>
                           in Inr (AList.update user_id info2 users, info2))))
              else Inr (AList.update user_id info1 users, info1)))"

text \<open>The document on disk after a call: the saved one, or the old one after an exception.\<close>

definition store_after :: "users \<Rightarrow> py_exn + (users \<times> user_info) \<Rightarrow> users" where
  "store_after users r = (case r of Inl e \<Rightarrow> users | Inr (users', info) \<Rightarrow> users')"

definition get_user_info :: "users \<Rightarrow> pystr \<Rightarrow> user_info option" where
  "get_user_info users user_id = map_of users user_id"

text \<open>
  \<^verbatim>\<open>get_users_by_expire_date\<close>: the loop over \<^verbatim>\<open>users.items()\<close>, appending to \<open>result\<close>.
  \<^verbatim>\<open>user_info.get("expire_date") == target_date\<close> compares the stored text, and a record
  without the field never matches.
\<close>

fun expire_scan :: "pystr \<Rightarrow> users \<Rightarrow> (pystr \<times> user_info) list \<Rightarrow> (pystr \<times> user_info) list" where
  "expire_scan target_date [] result = result"
| "expire_scan target_date ((user_id, info) # rest) result =
     expire_scan target_date rest
       (if expire_date info = Some target_date then result @ [(user_id, info)] else result)"

definition get_users_by_expire_date :: "users \<Rightarrow> pystr \<Rightarrow> (pystr \<times> user_info) list" where
  "get_users_by_expire_date users target_date = expire_scan target_date users []"

definition get_expiring_users ::
  "datetime \<Rightarrow> users \<Rightarrow> int \<Rightarrow> py_exn + (pystr \<times> user_info) list" where
  "get_expiring_users now users days_before =
     (case add_days now days_before of
        Inl e \<Rightarrow> Inl e
      | Inr t \<Rightarrow> Inr (get_users_by_expire_date users (strftime_ymd t)))"

definition get_expired_users ::
  "datetime \<Rightarrow> users \<Rightarrow> int \<Rightarrow> py_exn + (pystr \<times> user_info) list" where
  "get_expired_users now users days_after =
     (case add_days now (- days_after) of
        Inl e \<Rightarrow> Inl e
      | Inr t \<Rightarrow> Inr (get_users_by_expire_date users (strftime_ymd t)))"

subsection \<open>Sequences of calls\<close>

text \<open>
  A call of \<^verbatim>\<open>add_or_update_user\<close>: its clock reading and its three arguments. Running
  a list of calls gives the document on disk after each of them; a call that raises
  leaves the document as it was, and the next call loads that.
\<close>

type_synonym upsert_call = "datetime \<times> pystr \<times> pystr option \<times> int"

fun run_calls :: "users \<Rightarrow> upsert_call list \<Rightarrow> users list" where
  "run_calls users [] = []"
| "run_calls users ((now, user_id, username, extend_days) # calls) =
     (let users' = store_after users (add_or_update_user now users user_id username extend_days)
      in users' # run_calls users' calls)"

text \<open>The day (as an ordinal) that a user's stored \<open>expire_date\<close> denotes, if it parses.\<close>

definition expiry_day :: "users \<Rightarrow> pystr \<Rightarrow> int option" where
  "expiry_day users user_id =
     (case map_of users user_id of
        None \<Rightarrow> None
      | Some info \<Rightarrow>
          (case expire_date info of
             None \<Rightarrow> None
           | Some s \<Rightarrow> map_option toordinal (strptime_ymd s)))"

section \<open>The command service (class UserManagementPlugin)\<close>

subsection \<open>Library text functions\<close>

text \<open>
  \<^verbatim>\<open>str.split()\<close> and \<^verbatim>\<open>str.strip()\<close> cut at the white space of Unicode, the code points
  for which \<^verbatim>\<open>str.isspace\<close> holds.
\<close>

definition is_space :: "nat \<Rightarrow> bool" where
  "is_space c =
     ((9 \<le> c \<and> c \<le> 13) \<or> (28 \<le> c \<and> c \<le> 32) \<or> c = 133 \<or> c = 160 \<or> c = 5760
      \<or> (8192 \<le> c \<and> c \<le> 8202) \<or> c = 8232 \<or> c = 8233 \<or> c = 8239 \<or> c = 8287
      \<or> c = 12288)"

definition py_strip :: "pystr \<Rightarrow> pystr" where
  "py_strip s = rev (dropWhile is_space (rev (dropWhile is_space s)))"

fun split_words :: "pystr \<Rightarrow> pystr \<Rightarrow> pystr list" where
  "split_words word [] = (if word = [] then [] else [word])"
| "split_words word (c # cs) =
     (if is_space c then (if word = [] then [] else [word]) @ split_words [] cs
      else split_words (word @ [c]) cs)"

definition py_split :: "pystr \<Rightarrow> pystr list" where
  "py_split s = split_words [] s"

text \<open>
  \<^verbatim>\<open>str.lower()\<close>, \<^verbatim>\<open>int()\<close> and the class \<^verbatim>\<open>\d\<close> of the regular expressions rest on
  tables of Unicode that are no part of the repository: the functions that use them take
  them as a parameter. \<open>int_of_str\<close> returns \<open>None\<close> where \<^verbatim>\<open>int\<close> raises
  \<^verbatim>\<open>ValueError\<close>; \<open>is_decimal\<close> holds for the code points that \<^verbatim>\<open>\d\<close> matches, the
  decimal digits of every script.
\<close>

record pylib =
  str_lower :: "pystr \<Rightarrow> pystr"
  int_of_str :: "pystr \<Rightarrow> int option"
  is_decimal :: "nat \<Rightarrow> bool"

text \<open>
  An instance for ASCII text, used where a concrete library is needed. \<open>decimal_int\<close>
  is \<^verbatim>\<open>int\<close> on ASCII text: white space around the numeral is dropped, a sign may lead,
  single underscores may stand between digits, and more than 4300 digits are refused.
\<close>

definition ascii_lower :: "pystr \<Rightarrow> pystr" where
  "ascii_lower s = map (\<lambda>c. if 65 \<le> c \<and> c \<le> 90 then c + 32 else c) s"

definition decimal_value :: "pystr \<Rightarrow> int" where
  "decimal_value ds = foldl (\<lambda>n c. 10 * n + dval c) 0 ds"

fun digit_groups :: "pystr \<Rightarrow> pystr option" where
  "digit_groups [] = None"
| "digit_groups [c] = (if is_digit c then Some [c] else None)"
| "digit_groups (c # d # cs) =
     (if is_digit c then
        map_option ((#) c) (if d = 95 then digit_groups cs else digit_groups (d # cs))
      else None)"

definition decimal_int :: "pystr \<Rightarrow> int option" where
  "decimal_int s =
     (case py_strip s of
        [] \<Rightarrow> None
      | c # cs \<Rightarrow>
          (case digit_groups (if c = 43 \<or> c = 45 then cs else c # cs) of
             None \<Rightarrow> None
           | Some ds \<Rightarrow>
               if length ds > 4300 then None
               else Some (if c = 45 then - decimal_value ds else decimal_value ds)))"

definition ascii_lib :: pylib where
  "ascii_lib = \<lparr>str_lower = ascii_lower, int_of_str = decimal_int, is_decimal = is_digit\<rparr>"

subsection \<open>The plugin object\<close>

text \<open>
  The configuration is a JSON object; a key it lacks is \<open>None\<close>. The plugin holds the
  two documents on disk and what \<^verbatim>\<open>__init__\<close> and \<^verbatim>\<open>save_settings\<close> keep in memory:
  \<^verbatim>\<open>self.config\<close>, \<^verbatim>\<open>self.admins\<close> (its entries after \<^verbatim>\<open>str\<close>), \<^verbatim>\<open>self.group_id\<close> and the
  flag of the reminder task.
\<close>

record config =
  cfg_admins :: "pystr list option"
  cfg_reminder_enabled :: "bool option"
  cfg_reminder_days_before :: "int list option"
  cfg_expired_check_days :: "int option"
  cfg_group_id :: "pystr option"

record plugin =
  users_doc :: users
  config_doc :: config
  config_mem :: config
  admins :: "pystr list"
  group_id :: pystr
  reminder_task_running :: bool

definition is_admin :: "plugin \<Rightarrow> pystr \<Rightarrow> bool" where
  "is_admin st user_id = (user_id \<in> set (admins st))"

subsection \<open>Finding the mentioned user\<close>

text \<open>
  \<^verbatim>\<open>re.search\<close> tries the pattern at each position from the left and returns the first
  match. \<open>re_search m\<close> does so for a matcher \<open>m\<close> that matches at the head of its
  argument.
\<close>

fun re_search :: "(pystr \<Rightarrow> 'a option) \<Rightarrow> pystr \<Rightarrow> 'a option" where
  "re_search m [] = m []"
| "re_search m (c # cs) = (case m (c # cs) of Some r \<Rightarrow> Some r | None \<Rightarrow> re_search m cs)"

definition CQ_PREFIX :: pystr where
  "CQ_PREFIX = str ''[CQ:at,qq=''"

text \<open>
  The pattern \<^verbatim>\<open>\[CQ:at,qq=(\d+)\]\<close> at the head of \<open>s\<close>, for the class \<open>isd\<close> of
  \<^verbatim>\<open>\d\<close>. The greedy \<^verbatim>\<open>\d+\<close> takes the whole run of digits; giving digits back cannot
  help, since the closing bracket is no digit. The result is group 1.
\<close>

definition match_cq :: "(nat \<Rightarrow> bool) \<Rightarrow> pystr \<Rightarrow> pystr option" where
  "match_cq isd s =
     (if take 10 s = CQ_PREFIX then
        (let ds = takeWhile isd (drop 10 s);
             rest = dropWhile isd (drop 10 s)
         in if ds \<noteq> [] \<and> take 1 rest = [93] then Some ds else None)
      else None)"

text \<open>The pattern \<^verbatim>\<open>@(\d+)\<close> at the head of \<open>s\<close>.\<close>

definition match_at :: "(nat \<Rightarrow> bool) \<Rightarrow> pystr \<Rightarrow> pystr option" where
  "match_at isd s =
     (case s of
        [] \<Rightarrow> None
      | c # cs \<Rightarrow>
          if c = 64 \<and> takeWhile isd cs \<noteq> [] then Some (takeWhile isd cs) else None)"

definition extract_at_user :: "(nat \<Rightarrow> bool) \<Rightarrow> pystr \<Rightarrow> pystr option" where
  "extract_at_user isd message_text =
     (case re_search (match_cq isd) message_text of
        Some user \<Rightarrow> Some user
      | None \<Rightarrow> re_search (match_at isd) message_text)"

text \<open>
  The two forms of a mention as the specification names them, for comparison with the
  search: the structured code \<^verbatim>\<open>[CQ:at,qq=digits]\<close> standing at position \<open>k\<close> of the text,
  and a bare \<^verbatim>\<open>@digits\<close> token at position \<open>k\<close> (the digits up to the first character that
  is not one).
\<close>

definition digits :: "(nat \<Rightarrow> bool) \<Rightarrow> pystr \<Rightarrow> bool" where
  "digits isd u = (u \<noteq> [] \<and> list_all isd u)"

definition cq_mention_at :: "(nat \<Rightarrow> bool) \<Rightarrow> pystr \<Rightarrow> nat \<Rightarrow> pystr \<Rightarrow> bool" where
  "cq_mention_at isd message_text k u =
     (digits isd u
      \<and> take (10 + length u + 1) (drop k message_text) = CQ_PREFIX @ u @ [93])"

definition at_mention_at :: "(nat \<Rightarrow> bool) \<Rightarrow> pystr \<Rightarrow> nat \<Rightarrow> pystr \<Rightarrow> bool" where
  "at_mention_at isd message_text k u =
     (digits isd u \<and> take (1 + length u) (drop k message_text) = 64 # u
      \<and> (case drop (k + 1 + length u) message_text of [] \<Rightarrow> True | c # cs \<Rightarrow> \<not> isd c))"

subsection \<open>Replies\<close>

text \<open>
  The replies are Chinese text built from a few values; a constructor stands for each
  template and carries the values that the template prints.
\<close>

datatype status =
    DaysLeft int
  | ExpiresToday
  | ExpiredDays int
  | DateFormatError

datatype reply =
    PermissionDenied
  | UsernameUsage
  | ExtendUsage
  | TargetMissing
  | UsernameSet pystr pystr
  | UsernameFailed py_exn
  | DaysNotPositive
  | DaysNotNumber
  | Extended pystr int pystr
  | ExtendFailed py_exn
  | NoRecord
  | ServiceStatus pystr pystr pystr status
  | NoUsers
  | UserList "(pystr \<times> pystr \<times> pystr \<times> status) list"
  | HelpText bool

definition UNKNOWN :: pystr where
  "UNKNOWN = [26410, 30693]"

definition NOT_SET :: pystr where
  "NOT_SET = [26410, 35774, 32622]"

definition CMD_USERNAME :: pystr where
  "CMD_USERNAME = str ''/yhm''"

definition CMD_EXTEND :: pystr where
  "CMD_EXTEND = [47, 32493, 26102]"

definition CMD_CHECK :: pystr where
  "CMD_CHECK = [47, 26597, 30475, 21040, 26399, 26102, 38388]"

definition CMD_LIST :: pystr where
  "CMD_LIST = [47, 29992, 25143, 21015, 34920]"

definition CMD_HELP :: pystr where
  "CMD_HELP = [47, 24110, 21161]"

subsection \<open>The handlers\<close>

text \<open>
  The status line of a stored \<open>expire_date\<close> at the clock reading \<open>now\<close>; the source
  has this block in \<^verbatim>\<open>handle_check_expire_command\<close> and again in \<^verbatim>\<open>get_user_list\<close>.
  \<open>now\<close> is \<^verbatim>\<open>datetime.now()\<close>, with its time of day.
\<close>

definition expiry_status :: "datetime \<Rightarrow> pystr \<Rightarrow> status" where
  "expiry_status now expire =
     (case strptime_ymd expire of
        None \<Rightarrow> DateFormatError
      | Some expire_datetime \<Rightarrow>
          (let days_left = delta_days expire_datetime now
           in if days_left > 0 then DaysLeft days_left
              else if days_left = 0 then ExpiresToday
              else ExpiredDays (abs days_left)))"

definition or_default :: "pystr option \<Rightarrow> pystr \<Rightarrow> pystr" where
  "or_default v d = (case v of None \<Rightarrow> d | Some s \<Rightarrow> s)"

text \<open>\<^verbatim>\<open>if not user_info\<close> holds for no record and for an empty one.\<close>

definition handle_check_expire_command :: "datetime \<Rightarrow> users \<Rightarrow> pystr \<Rightarrow> reply" where
  "handle_check_expire_command now users sender_id =
     (case get_user_info users sender_id of
        None \<Rightarrow> NoRecord
      | Some info \<Rightarrow>
          if platform_username info = None \<and> start_date info = None \<and> expire_date info = None
          then NoRecord
          else ServiceStatus (or_default (platform_username info) NOT_SET)
                 (or_default (start_date info) UNKNOWN)
                 (or_default (expire_date info) UNKNOWN)
                 (expiry_status now (or_default (expire_date info) UNKNOWN)))"

definition handle_yhm_command ::
  "pylib \<Rightarrow> datetime \<Rightarrow> plugin \<Rightarrow> pystr list \<Rightarrow> pystr \<Rightarrow> pystr \<Rightarrow> reply \<times> plugin" where
  "handle_yhm_command L now st message_parts message_text sender_id =
     (if \<not> is_admin st sender_id then (PermissionDenied, st)
      else if length message_parts < 2 then (UsernameUsage, st)
      else
        (let username = message_parts ! 1
         in case extract_at_user (is_decimal L) message_text of
              None \<Rightarrow> (TargetMissing, st)
            | Some target \<Rightarrow>
                (case add_or_update_user now (users_doc st) target (Some username) 0 of
                   Inl e \<Rightarrow> (UsernameFailed e, st)
                 | Inr (users', info) \<Rightarrow>
                     (UsernameSet target username, st\<lparr>users_doc := users'\<rparr>))))"

definition handle_extend_time_command ::
  "pylib \<Rightarrow> datetime \<Rightarrow> plugin \<Rightarrow> pystr list \<Rightarrow> pystr \<Rightarrow> pystr \<Rightarrow> reply \<times> plugin" where
  "handle_extend_time_command L now st message_parts message_text sender_id =
     (if \<not> is_admin st sender_id then (PermissionDenied, st)
      else if length message_parts < 2 then (ExtendUsage, st)
      else
        (case int_of_str L (message_parts ! 1) of
           None \<Rightarrow> (DaysNotNumber, st)
         | Some days \<Rightarrow>
             if days \<le> 0 then (DaysNotPositive, st)
             else
               (case extract_at_user (is_decimal L) message_text of
                  None \<Rightarrow> (TargetMissing, st)
                | Some target \<Rightarrow>
                    (case add_or_update_user now (users_doc st) target None days of
                       Inl e \<Rightarrow> (ExtendFailed e, st)
                     | Inr (users', info) \<Rightarrow>
                         (case expire_date info of
                            None \<Rightarrow> (ExtendFailed KeyError, st\<lparr>users_doc := users'\<rparr>)
                          | Some expire \<Rightarrow>
                              (Extended target days expire, st\<lparr>users_doc := users'\<rparr>))))))"

definition get_user_list :: "datetime \<Rightarrow> users \<Rightarrow> reply" where
  "get_user_list now users =
     (if users = [] then NoUsers
      else UserList
             (map (\<lambda>(user_id, info).
                     (user_id, or_default (platform_username info) NOT_SET,
                      or_default (expire_date info) UNKNOWN,
                      expiry_status now (or_default (expire_date info) UNKNOWN)))
                users))"

definition get_help_text :: "plugin \<Rightarrow> pystr \<Rightarrow> reply" where
  "get_help_text st sender_id = HelpText (is_admin st sender_id)"

text \<open>
  \<^verbatim>\<open>process_message\<close>: the reply (\<open>None\<close> for no reply) and the plugin afterwards. The
  handlers receive the message as it came, not the stripped one.
\<close>

definition process_message ::
  "pylib \<Rightarrow> datetime \<Rightarrow> plugin \<Rightarrow> pystr \<Rightarrow> pystr \<Rightarrow> reply option \<times> plugin" where
  "process_message L now st message_text sender_id =
     (let message = py_strip message_text;
          message_parts = py_split message
      in case message_parts of
           [] \<Rightarrow> (None, st)
         | first # args \<Rightarrow>
             (let command = str_lower L first
              in if command = CMD_USERNAME then
                   (case handle_yhm_command L now st message_parts message_text sender_id of
                      (r, st') \<Rightarrow> (Some r, st'))
                 else if command = CMD_EXTEND then
                   (case handle_extend_time_command L now st message_parts message_text
                           sender_id of
                      (r, st') \<Rightarrow> (Some r, st'))
                 else if command = CMD_CHECK then
                   (Some (handle_check_expire_command now (users_doc st) sender_id), st)
                 else if command = CMD_LIST \<and> is_admin st sender_id then
                   (Some (get_user_list now (users_doc st)), st)
                 else if command = CMD_HELP then
                   (Some (get_help_text st sender_id), st)
                 else (None, st)))"

section \<open>The reminder task\<close>

text \<open>
  What the reminder task hands to \<^verbatim>\<open>send_group_message\<close> and \<^verbatim>\<open>send_private_message\<close>:
  one constructor for each of the three message templates, with the values printed. The
  two broadcasts add a line with the user name when the record has a non-empty one.
\<close>

datatype notice =
    ExpiresSoon pystr pystr "pystr option"
  | ExpiresNow pystr pystr "pystr option"
  | ExpiredNotice pystr pystr pystr

datatype outbound =
    GroupMessage notice
  | PrivateMessage pystr notice

definition username_line :: "user_info \<Rightarrow> pystr option" where
  "username_line info =
     (case platform_username info of
        None \<Rightarrow> None
      | Some u \<Rightarrow> if u = [] then None else Some u)"

text \<open>
  The bodies of the three \<^verbatim>\<open>for\<close> loops. \<^verbatim>\<open>user_info['expire_date']\<close> raises
  \<^verbatim>\<open>KeyError\<close> for a record without the field.
\<close>

definition remind_soon :: "pystr \<times> user_info \<Rightarrow> py_exn + outbound list" where
  "remind_soon p =
     (case expire_date (snd p) of
        None \<Rightarrow> Inl KeyError
      | Some e \<Rightarrow> Inr [GroupMessage (ExpiresSoon (fst p) e (username_line (snd p)))])"

definition remind_today :: "pystr \<times> user_info \<Rightarrow> py_exn + outbound list" where
  "remind_today p =
     (case expire_date (snd p) of
        None \<Rightarrow> Inl KeyError
      | Some e \<Rightarrow> Inr [GroupMessage (ExpiresNow (fst p) e (username_line (snd p)))])"

definition notify_admins :: "pystr list \<Rightarrow> pystr \<times> user_info \<Rightarrow> py_exn + outbound list" where
  "notify_admins admin_ids p =
     (case expire_date (snd p) of
        None \<Rightarrow> Inl KeyError
      | Some e \<Rightarrow>
          Inr (map (\<lambda>admin_id.
                      PrivateMessage admin_id
                        (ExpiredNotice (fst p) (or_default (platform_username (snd p)) NOT_SET) e))
                 admin_ids))"

text \<open>
  A loop over the users found sends what its body builds, until a body raises. The
  result is what was sent and the exception that ended the work, if any.
\<close>

fun send_each ::
  "('a \<Rightarrow> py_exn + outbound list) \<Rightarrow> 'a list \<Rightarrow> outbound list \<times> py_exn option" where
  "send_each f [] = ([], None)"
| "send_each f (x # xs) =
     (case f x of
        Inl e \<Rightarrow> ([], Some e)
      | Inr out \<Rightarrow> (case send_each f xs of (rest, err) \<Rightarrow> (out @ rest, err)))"

definition scan_and_send ::
  "py_exn + 'a list \<Rightarrow> ('a \<Rightarrow> py_exn + outbound list) \<Rightarrow> outbound list \<times> py_exn option" where
  "scan_and_send found f = (case found of Inl e \<Rightarrow> ([], Some e) | Inr us \<Rightarrow> send_each f us)"

definition and_then ::
  "outbound list \<times> py_exn option \<Rightarrow> outbound list \<times> py_exn option
     \<Rightarrow> outbound list \<times> py_exn option" where
  "and_then a b =
     (case a of
        (out, Some e) \<Rightarrow> (out, Some e)
      | (out, None) \<Rightarrow> (case b of (out', err) \<Rightarrow> (out @ out', err)))"

text \<open>
  \<^verbatim>\<open>check_and_send_reminders\<close> at the clock reading \<open>now\<close>. \<^verbatim>\<open>load_config()\<close> reads the
  document on disk; the recipients of the private notices are \<^verbatim>\<open>self.admins\<close>.
\<close>

definition check_and_send_reminders :: "datetime \<Rightarrow> plugin \<Rightarrow> outbound list \<times> py_exn option" where
  "check_and_send_reminders now st =
     (let config = config_doc st
      in if \<not> (case cfg_reminder_enabled config of None \<Rightarrow> True | Some b \<Rightarrow> b)
         then ([], None)
         else and_then
                (scan_and_send (get_expiring_users now (users_doc st) 3) remind_soon)
                (and_then
                   (scan_and_send (get_expiring_users now (users_doc st) 0) remind_today)
                   (scan_and_send (get_expired_users now (users_doc st) 1)
                      (notify_admins (admins st)))))"

text \<open>
  One turn of the loop of \<^verbatim>\<open>start_reminder_task\<close>, as the effects it has in order: the
  messages sent, the exception logged if one was caught, and the sleep in seconds.
\<close>

datatype effect =
    Send outbound
  | LogError py_exn
  | Sleep int

definition reminder_iteration :: "datetime \<Rightarrow> plugin \<Rightarrow> effect list" where
  "reminder_iteration now st =
     (case check_and_send_reminders now st of
        (out, err) \<Rightarrow>
          map Send out @ (case err of None \<Rightarrow> [] | Some e \<Rightarrow> [LogError e])
            @ [Sleep (24 * 60 * 60)])"

text \<open>
  The loop runs as long as the flag is set when a turn begins. Its argument lists, for
  the turns observed, the clock reading of the turn and the plugin as commands, settings
  and \<^verbatim>\<open>stop_reminder_task\<close> have left it by then.
\<close>

fun reminder_loop :: "(datetime \<times> plugin) list \<Rightarrow> effect list" where
  "reminder_loop [] = []"
| "reminder_loop ((now, st) # later) =
     (if reminder_task_running st then reminder_iteration now st @ reminder_loop later
      else [])"

definition start_reminder_task ::
  "datetime \<Rightarrow> plugin \<Rightarrow> (datetime \<times> plugin) list \<Rightarrow> effect list" where
  "start_reminder_task now st later =
     (if reminder_task_running st then []
      else reminder_loop ((now, st\<lparr>reminder_task_running := True\<rparr>) # later))"

definition stop_reminder_task :: "plugin \<Rightarrow> plugin" where
  "stop_reminder_task st = st\<lparr>reminder_task_running := False\<rparr>"

section \<open>Saving the settings\<close>



datatype save_message =
    SettingsSaved
  | JsonFormatError pystr
  | SaveFailed

record save_result =
  success :: bool
  message :: save_message


section \<open>The reminder turn in the words of the specification\<close>

text \<open>
  For comparison with \<^verbatim>\<open>check_and_send_reminders\<close>: the users whose \<open>expire_date\<close> is the
  text of a given day, and the three scans of a turn, in order: a broadcast for each user
  expiring three days from today, a broadcast for each user expiring today, and for each
  user expired as of one day ago a private notice to every admin.
\<close>

definition expiring_on :: "int \<Rightarrow> users \<Rightarrow> (pystr \<times> user_info) list" where
  "expiring_on day us = filter (\<lambda>(user_id, info). expire_date info = Some (date_string day)) us"

definition three_scans :: "datetime \<Rightarrow> plugin \<Rightarrow> outbound list" where
  "three_scans now st =
     map (\<lambda>(user_id, info).
            GroupMessage (ExpiresSoon user_id (date_string (toordinal now + 3))
                            (username_line info)))
       (expiring_on (toordinal now + 3) (users_doc st))
     @ map (\<lambda>(user_id, info).
              GroupMessage (ExpiresNow user_id (date_string (toordinal now))
                              (username_line info)))
         (expiring_on (toordinal now) (users_doc st))
     @ concat (map (\<lambda>(user_id, info).
                 map (\<lambda>admin_id.
                        PrivateMessage admin_id
                          (ExpiredNotice user_id (or_default (platform_username info) NOT_SET)
                             (date_string (toordinal now - 1))))
                   (admins st))
         (expiring_on (toordinal now - 1) (users_doc st)))"

section \<open>Calendar and text lemmas\<close>

lemma doy_all: "\<forall>n \<in> set [0..364]. \<forall>l \<in> {True, False}. (case doy2md l n of (m, d) \<Rightarrow>
   1 \<le> m \<and> m \<le> 12 \<and> 1 \<le> d \<and> d \<le> (if m = 2 \<and> l then 29 else DAYS_IN_MONTH ! nat m) \<and>
   DAYS_BEFORE_MONTH ! nat m + (if m > 2 \<and> l then 1 else 0) + d = n + 1)"
  by code_simp

lemma doy2md_ok:
  assumes "0 \<le> n" "n < 365" "doy2md l n = (m, d)"
  shows "1 \<le> m \<and> m \<le> 12 \<and> 1 \<le> d \<and> d \<le> (if m = 2 \<and> l then 29 else DAYS_IN_MONTH ! nat m) \<and>
   DAYS_BEFORE_MONTH ! nat m + (if m > 2 \<and> l then 1 else 0) + d = n + 1"
proof -
  have "n \<in> set [0..364]" using assms by simp
  moreover have "l \<in> {True, False}" by simp
  ultimately show ?thesis using doy_all assms(3) by fastforce
qed

lemma divq: fixes q r k :: int assumes "0 \<le> r" "r < k" shows "(k * q + r) div k = q" and "(k * q + r) mod k = r"
  using assms by (simp_all add: div_pos_pos_trivial mod_pos_pos_trivial)

lemma year_divs:
  fixes a b c e :: int
  assumes "0 \<le> b" "b \<le> 3" "0 \<le> c" "c \<le> 24" "0 \<le> e" "e \<le> 3"
  shows "(a * 400 + b * 100 + c * 4 + e) div 4 = 100 * a + 25 * b + c"
    and "(a * 400 + b * 100 + c * 4 + e) div 100 = 4 * a + b"
    and "(a * 400 + b * 100 + c * 4 + e) div 400 = a"
    and "(a * 400 + b * 100 + c * 4 + e) mod 4 = e"
    and "(a * 400 + b * 100 + c * 4 + e) mod 100 = 4 * c + e"
    and "(a * 400 + b * 100 + c * 4 + e) mod 400 = 100 * b + 4 * c + e"
proof -
  have e4: "a * 400 + b * 100 + c * 4 + e = 4 * (100 * a + 25 * b + c) + e" by simp
  have e100: "a * 400 + b * 100 + c * 4 + e = 100 * (4 * a + b) + (4 * c + e)" by simp
  have e400: "a * 400 + b * 100 + c * 4 + e = 400 * a + (100 * b + 4 * c + e)" by simp
  show "(a * 400 + b * 100 + c * 4 + e) div 4 = 100 * a + 25 * b + c"
    unfolding e4 using assms by (intro divq) auto
  show "(a * 400 + b * 100 + c * 4 + e) div 100 = 4 * a + b"
    unfolding e100 using assms by (intro divq) auto
  show "(a * 400 + b * 100 + c * 4 + e) div 400 = a"
    unfolding e400 using assms by (intro divq) auto
  show "(a * 400 + b * 100 + c * 4 + e) mod 4 = e"
    unfolding e4 using assms by (intro divq) auto
  show "(a * 400 + b * 100 + c * 4 + e) mod 100 = 4 * c + e"
    unfolding e100 using assms by (intro divq) auto
  show "(a * 400 + b * 100 + c * 4 + e) mod 400 = 100 * b + 4 * c + e"
    unfolding e400 using assms by (intro divq) auto
qed



lemma year_arith:
  fixes a b c e :: int
  assumes "0 \<le> b" "b \<le> 3" "0 \<le> c" "c \<le> 24" "0 \<le> e" "e \<le> 3"
    and y: "y = a * 400 + b * 100 + c * 4 + e + 1"
  shows "days_before_year y = 146097 * a + 36524 * b + 1461 * c + 365 * e"
    and "is_leap y = (e = 3 \<and> (c \<noteq> 24 \<or> b = 3))"
proof -
  note d = year_divs [OF assms(1-6), of a]
  have y1: "y - 1 = a * 400 + b * 100 + c * 4 + e" using y by simp
  show "days_before_year y = 146097 * a + 36524 * b + 1461 * c + 365 * e"
    unfolding days_before_year_def Let_def y1 d by simp
  have e4: "y = 4 * (100 * a + 25 * b + c) + (e + 1)" using y by simp
  have e100: "y = 100 * (4 * a + b) + (4 * c + e + 1)" using y by simp
  have e400: "y = 400 * a + (100 * b + 4 * c + e + 1)" using y by simp
  have m4: "y mod 4 = 0 \<longleftrightarrow> e = 3"
  proof (cases "e = 3")
    case True
    then have "y = 4 * (100 * a + 25 * b + c + 1) + 0" using y by simp
    then have "y mod 4 = 0" by (simp only: divq(2) [of 0 4])
    then show ?thesis using True by simp
  next
    case False
    then have "0 \<le> e + 1" "e + 1 < 4" using assms by auto
    then have "y mod 4 = e + 1" unfolding e4 by (rule divq(2))
    then show ?thesis using False assms by simp
  qed
  have m100: "y mod 100 = 0 \<longleftrightarrow> (e = 3 \<and> c = 24)"
  proof (cases "e = 3 \<and> c = 24")
    case True
    then have "y = 100 * (4 * a + b + 1) + 0" using y by simp
    then have "y mod 100 = 0" by (simp only: divq(2) [of 0 100])
    then show ?thesis using True by simp
  next
    case False
    then have "0 \<le> 4 * c + e + 1" "4 * c + e + 1 < 100" using assms by auto
    then have "y mod 100 = 4 * c + e + 1" unfolding e100 by (rule divq(2))
    then show ?thesis using False assms by auto
  qed
  have m400: "y mod 400 = 0 \<longleftrightarrow> (e = 3 \<and> c = 24 \<and> b = 3)"
  proof (cases "e = 3 \<and> c = 24 \<and> b = 3")
    case True
    then have "y = 400 * (a + 1) + 0" using y by simp
    then have "y mod 400 = 0" by (simp only: divq(2) [of 0 400])
    then show ?thesis using True by simp
  next
    case False
    then have "0 \<le> 100 * b + 4 * c + e + 1" "100 * b + 4 * c + e + 1 < 400" using assms by auto
    then have "y mod 400 = 100 * b + 4 * c + e + 1" unfolding e400 by (rule divq(2))
    then show ?thesis using False assms by auto
  qed
  show "is_leap y = (e = 3 \<and> (c \<noteq> 24 \<or> b = 3))"
    unfolding is_leap_def m4 m100 m400 by auto
qed


lemma ord2ymd_ok:
  assumes n: "1 \<le> n" and res: "ord2ymd n = (y, m, d)"
  shows "1 \<le> y \<and> 1 \<le> m \<and> m \<le> 12 \<and> 1 \<le> d \<and> d \<le> days_in_month y m \<and> ymd2ord y m d = n"
    and "n \<le> 3652059 \<Longrightarrow> y \<le> 9999"
proof -
  define n0 where "n0 = n - 1"
  define a where "a = n0 div 146097"
  define r400 where "r400 = n0 mod 146097"
  define b where "b = r400 div 36524"
  define r100 where "r100 = r400 mod 36524"
  define c where "c = r100 div 1461"
  define r4 where "r4 = r100 mod 1461"
  define e where "e = r4 div 365"
  define r1 where "r1 = r4 mod 365"
  have n0: "n0 = 146097 * a + r400" "0 \<le> r400" "r400 < 146097"
    unfolding a_def r400_def by simp_all
  have r400: "r400 = 36524 * b + r100" "0 \<le> r100" "r100 < 36524"
    unfolding b_def r100_def by simp_all
  have r100: "r100 = 1461 * c + r4" "0 \<le> r4" "r4 < 1461"
    unfolding c_def r4_def by simp_all
  have r4: "r4 = 365 * e + r1" "0 \<le> r1" "r1 < 365"
    unfolding e_def r1_def by simp_all
  have a0: "0 \<le> a" using n unfolding a_def n0_def by (simp add: pos_imp_zdiv_nonneg_iff)
  have b0: "0 \<le> b" "b \<le> 4" using n0 r400 by linarith+
  have c0: "0 \<le> c" "c \<le> 24" using r400 r100 by linarith+
  have e0: "0 \<le> e" "e \<le> 4" using r100 r4 by linarith+
  have unf: "ord2ymd n =
      (if e = 4 \<or> b = 4 then (a * 400 + 1 + b * 100 + c * 4 + e - 1, 12, 31)
       else (case doy2md (e = 3 \<and> (c \<noteq> 24 \<or> b = 3)) r1 of
               (month, day) \<Rightarrow> (a * 400 + 1 + b * 100 + c * 4 + e, month, day)))"
    unfolding ord2ymd_def Let_def a_def r400_def b_def r100_def c_def r4_def e_def r1_def n0_def
    by (simp split: prod.splits)
  have main: "1 \<le> y \<and> 1 \<le> m \<and> m \<le> 12 \<and> 1 \<le> d \<and> d \<le> days_in_month y m \<and> ymd2ord y m d = n
     \<and> (n \<le> 3652059 \<longrightarrow> y \<le> 9999)"
  proof (cases "b = 4")
    case True
    then have z: "r100 = 0" "c = 0" "r4 = 0" "e = 0" "r1 = 0"
      using n0 r400 r100 r4 c0 e0 by linarith+
    have ymd: "y = a * 400 + 3 * 100 + 24 * 4 + 3 + 1" "m = 12" "d = 31"
      using res unf True z by simp_all
    note ya = year_arith [OF _ _ _ _ _ _ ymd(1)]
    have "days_before_year y = 146097 * a + 36524 * 3 + 1461 * 24 + 365 * 3" by (rule ya(1)) simp_all
    moreover have "is_leap y" using ya(2) by simp
    moreover have "n = 146097 * a + 146096 + 1" using n0 r400 True z n0_def by simp
    ultimately show ?thesis using ymd a0
      by (simp add: ymd2ord_def days_before_month_def days_in_month_def
          DAYS_BEFORE_MONTH_def DAYS_IN_MONTH_def)
  next
    case b4: False
    then have b3: "b \<le> 3" using b0 by simp
    show ?thesis
    proof (cases "e = 4")
      case True
      then have z: "r1 = 0" using r4 r100 by linarith
      have c23: "c \<le> 23" using True r4 r100 r400 by linarith
      have ymd: "y = a * 400 + b * 100 + c * 4 + 3 + 1" "m = 12" "d = 31"
        using res unf True by simp_all
      note ya = year_arith [OF b0(1) b3 c0 _ _ ymd(1)]
      have "days_before_year y = 146097 * a + 36524 * b + 1461 * c + 365 * 3" by (rule ya(1)) simp_all
      moreover have "is_leap y" using ya(2) c23 by simp
      moreover have "n = 146097 * a + 36524 * b + 1461 * c + 1460 + 1"
        using n0 r400 r100 r4 True z n0_def by simp
      moreover have "n \<le> 3652059 \<longrightarrow> y \<le> 9999"
        using \<open>n = 146097 * a + 36524 * b + 1461 * c + 1460 + 1\<close> ymd(1) b0 b3 c0 c23 a0 by auto
      ultimately show ?thesis using ymd a0 b0 c0
        by (simp add: ymd2ord_def days_before_month_def days_in_month_def
            DAYS_BEFORE_MONTH_def DAYS_IN_MONTH_def)
    next
      case False
      then have e3: "e \<le> 3" using e0 by simp
      obtain mm dd where md: "doy2md (e = 3 \<and> (c \<noteq> 24 \<or> b = 3)) r1 = (mm, dd)"
        by (cases "doy2md (e = 3 \<and> (c \<noteq> 24 \<or> b = 3)) r1") auto
      have ymd: "y = a * 400 + b * 100 + c * 4 + e + 1" "m = mm" "d = dd"
        using res unf False b4 md by simp_all
      note ya = year_arith [OF b0(1) b3 c0 e0(1) e3 ymd(1)]
      note dm = doy2md_ok [OF r4(2) r4(3) md]
      have nn: "n = 146097 * a + 36524 * b + 1461 * c + 365 * e + r1 + 1"
        using n0 r400 r100 r4 n0_def by simp
      have "n \<le> 3652059 \<longrightarrow> y \<le> 9999"
        using nn ymd(1) b0 b3 c0 e0 e3 a0 r4 by auto
      then show ?thesis using ymd a0 b0 c0 e0 ya dm nn
        by (simp add: ymd2ord_def days_before_month_def days_in_month_def)
    qed
  qed
  show "1 \<le> y \<and> 1 \<le> m \<and> m \<le> 12 \<and> 1 \<le> d \<and> d \<le> days_in_month y m \<and> ymd2ord y m d = n"
    using main by simp
  show "n \<le> 3652059 \<Longrightarrow> y \<le> 9999" using main by simp
qed


lemma days_before_year_nonneg: "1 \<le> y \<Longrightarrow> 0 \<le> days_before_year y"
proof -
  assume y: "1 \<le> y"
  have a: "(y - 1) div 100 \<le> (y - 1) div 4"
    using y by (intro zdiv_mono2) auto
  have b: "0 \<le> (y - 1) div 400" using y by (simp add: pos_imp_zdiv_nonneg_iff)
  show ?thesis unfolding days_before_year_def Let_def using a b y by simp
qed

lemma days_before_month_nonneg:
  assumes "1 \<le> m" "m \<le> 12" shows "0 \<le> days_before_month y m"
proof -
  have "m \<in> set [1..12]" using assms by simp
  then have "0 \<le> DAYS_BEFORE_MONTH ! nat m"
    by (auto simp: DAYS_BEFORE_MONTH_def upto.simps)
  then show ?thesis by (simp add: days_before_month_def)
qed

lemma ymd2ord_pos: "1 \<le> y \<Longrightarrow> 1 \<le> m \<Longrightarrow> m \<le> 12 \<Longrightarrow> 1 \<le> d \<Longrightarrow> 1 \<le> ymd2ord y m d"
  using days_before_year_nonneg [of y] days_before_month_nonneg [of m y]
  by (simp add: ymd2ord_def)

lemma toordinal_midnight: "toordinal (midnight n) = n"
  by (simp add: toordinal_def midnight_def US_PER_DAY_def)

lemma toordinal_mono: "a \<le> b \<Longrightarrow> toordinal a \<le> toordinal b"
  by (simp add: toordinal_def US_PER_DAY_def zdiv_mono1)

lemma toordinal_max: "toordinal (max a b) = max (toordinal a) (toordinal b)"
proof (cases "a \<le> b")
  case True
  then show ?thesis using toordinal_mono [of a b] by (simp add: max_def)
next
  case False
  then have "b \<le> a" by simp
  then show ?thesis using toordinal_mono [of b a] False by (simp add: max_def)
qed

lemma toordinal_add_days: "toordinal (t + d * US_PER_DAY) = toordinal t + d"
  by (simp add: toordinal_def US_PER_DAY_def)

lemma dt_valid_iff: "dt_valid t \<longleftrightarrow> 1 \<le> toordinal t \<and> toordinal t \<le> MAXORDINAL"
  unfolding dt_valid_def toordinal_def US_PER_DAY_def MAXORDINAL_def
  by arith


lemma digit_ok: "0 \<le> k \<Longrightarrow> k \<le> 9 \<Longrightarrow> is_digit (digit k) \<and> dval (digit k) = k"
  by (simp add: is_digit_def digit_def dval_def)

lemma parse_md_all:
  "\<forall>m \<in> set [1..12]. \<forall>d \<in> set [1..31].
     (case month_token (zfill2 m @ 45 # zfill2 d) of
        None \<Rightarrow> False
      | Some (m', rest) \<Rightarrow> m' = m \<and> day_token rest = Some d)"
  by code_simp

lemma parse_md:
  assumes "1 \<le> m" "m \<le> 12" "1 \<le> d" "d \<le> 31"
  shows "\<exists>rest. month_token (zfill2 m @ 45 # zfill2 d) = Some (m, rest) \<and> day_token rest = Some d"
proof -
  have "m \<in> set [1..12]" "d \<in> set [1..31]" using assms by simp_all
  then show ?thesis using parse_md_all by (fastforce split: option.splits)
qed

lemma days_in_month_le: "1 \<le> m \<Longrightarrow> m \<le> 12 \<Longrightarrow> days_in_month y m \<le> 31"
proof -
  assume "1 \<le> m" "m \<le> 12"
  then have "m \<in> set [1..12]" by simp
  then have "DAYS_IN_MONTH ! nat m \<le> 31"
    by (auto simp: DAYS_IN_MONTH_def upto.simps)
  then show ?thesis by (simp add: days_in_month_def)
qed

lemma zfill4_value:
  fixes y :: int
  assumes "0 \<le> y" "y \<le> 9999"
  shows "1000 * (y div 1000) + 100 * (y div 100 mod 10) + 10 * (y div 10 mod 10) + y mod 10 = y"
    and "y div 1000 \<le> 9" "y div 100 mod 10 \<le> 9" "y div 10 mod 10 \<le> 9" "y mod 10 \<le> 9"
    and "0 \<le> y div 1000" "0 \<le> y div 100 mod 10" "0 \<le> y div 10 mod 10" "0 \<le> y mod 10"
proof -
  have d100: "y div 100 = y div 10 div 10" by (simp add: zdiv_zmult2_eq [symmetric])
  have d1000: "y div 1000 = y div 100 div 10" by (simp add: zdiv_zmult2_eq [symmetric])
  have a: "y = 10 * (y div 10) + y mod 10" by simp
  have b: "y div 10 = 10 * (y div 100) + y div 10 mod 10" unfolding d100 by simp
  have c: "y div 100 = 10 * (y div 1000) + y div 100 mod 10" unfolding d1000 by simp
  show "1000 * (y div 1000) + 100 * (y div 100 mod 10) + 10 * (y div 10 mod 10) + y mod 10 = y"
    using a b c by linarith
  have "y div 1000 \<le> 9999 div 1000" using assms(2) by (rule zdiv_mono1) simp
  then show "y div 1000 \<le> 9" by simp
  show "0 \<le> y div 1000" using assms(1) by (simp add: pos_imp_zdiv_nonneg_iff)
  have m: "\<And>x :: int. 0 \<le> x mod 10 \<and> x mod 10 \<le> 9"
  proof -
    fix x :: int
    have "0 \<le> x mod 10" "x mod 10 < 10" by simp_all
    then show "0 \<le> x mod 10 \<and> x mod 10 \<le> 9" by simp
  qed
  show "y div 100 mod 10 \<le> 9" "y div 10 mod 10 \<le> 9" "y mod 10 \<le> 9"
    "0 \<le> y div 100 mod 10" "0 \<le> y div 10 mod 10" "0 \<le> y mod 10"
    using m by simp_all
qed

lemma strptime_digits:
  assumes "is_digit y1" "is_digit y2" "is_digit y3" "is_digit y4"
    and "month_token rest = Some (m, rest')" "day_token rest' = Some d"
    and "1000 * dval y1 + 100 * dval y2 + 10 * dval y3 + dval y4 = y"
    and "1 \<le> y" "d \<le> days_in_month y m"
  shows "strptime_ymd (y1 # y2 # y3 # y4 # 45 # rest) = Some (midnight (ymd2ord y m d))"
  using assms by (simp add: Let_def)

lemma strptime_strftime:
  assumes "dt_valid t"
  shows "strptime_ymd (strftime_ymd t) = Some (midnight (toordinal t))"
proof -
  obtain y m d where ymd: "ord2ymd (toordinal t) = (y, m, d)"
    by (cases "ord2ymd (toordinal t)") auto
  have n: "1 \<le> toordinal t" "toordinal t \<le> 3652059"
    using assms by (simp_all add: dt_valid_iff MAXORDINAL_def)
  note ok = ord2ymd_ok(1) [OF n(1) ymd] ord2ymd_ok(2) [OF n(1) ymd n(2)]
  have d31: "d \<le> 31" using ok(1) days_in_month_le [of m y] by simp
  obtain rest where tok: "month_token (zfill2 m @ 45 # zfill2 d) = Some (m, rest)"
      "day_token rest = Some d"
    using parse_md [of m d] ok(1) d31 by auto
  have y0: "0 \<le> y" "y \<le> 9999" using ok by simp_all
  note z = zfill4_value [OF y0]
  note dg = digit_ok [OF z(6) z(2)] digit_ok [OF z(7) z(3)]
      digit_ok [OF z(8) z(4)] digit_ok [OF z(9) z(5)]
  have yv: "1000 * dval (digit (y div 1000)) + 100 * dval (digit (y div 100 mod 10))
      + 10 * dval (digit (y div 10 mod 10)) + dval (digit (y mod 10)) = y"
    using dg z(1) by presburger
  have str_eq: "strftime_ymd t =
      digit (y div 1000) # digit (y div 100 mod 10) # digit (y div 10 mod 10) # digit (y mod 10)
        # 45 # (zfill2 m @ 45 # zfill2 d)"
    by (simp add: strftime_ymd_def date_string_def ymd zfill4_def)
  have "strptime_ymd (strftime_ymd t) = Some (midnight (ymd2ord y m d))"
    unfolding str_eq
    by (rule strptime_digits [OF _ _ _ _ tok yv]) (use dg ok in simp_all)
  then show ?thesis using ok(1) by simp
qed

lemma month_token_range: "month_token s = Some (m, r) \<Longrightarrow> 1 \<le> m \<and> m \<le> 12"
proof (induction s rule: month_token.induct)
  case (1 a b c rest)
  then show ?case
    unfolding month_token.simps
    apply (cases "a = 49 \<and> 48 \<le> b \<and> b \<le> 50 \<and> c = 45")
     apply (simp add: dval_def)
    apply (cases "a = 48 \<and> 49 \<le> b \<and> b \<le> 57 \<and> c = 45")
     apply (simp add: dval_def)
    apply (cases "49 \<le> a \<and> a \<le> 57 \<and> b = 45")
     apply (simp add: dval_def)
    apply simp
    done
next
  case (2 a b)
  then show ?case by (auto simp: dval_def split: if_splits)
qed simp_all

lemma day_token_range: "day_token s = Some d \<Longrightarrow> 1 \<le> d"
proof (induction s rule: day_token.induct)
  case (1 a b)
  then show ?case
    unfolding day_token.simps is_digit_def
    apply (cases "a = 51 \<and> 48 \<le> b \<and> b \<le> 49")
     apply (simp add: dval_def)
    apply (cases "49 \<le> a \<and> a \<le> 50 \<and> 48 \<le> b \<and> b \<le> 57")
     apply (simp add: dval_def)
    apply (cases "a = 48 \<and> 49 \<le> b \<and> b \<le> 57")
     apply (simp add: dval_def)
    apply (cases "a = 32 \<and> 49 \<le> b \<and> b \<le> 57")
     apply (simp add: dval_def)
    apply simp
    done
next
  case (2 a)
  then show ?case by (auto simp: dval_def split: if_splits)
qed simp_all

lemma strptime_midnight:
  assumes "strptime_ymd s = Some t"
  shows "1 \<le> toordinal t \<and> t = midnight (toordinal t)"
proof -
  have "\<exists>y m d. 1 \<le> y \<and> 1 \<le> m \<and> m \<le> 12 \<and> 1 \<le> d \<and> t = midnight (ymd2ord y m d)"
    using assms
  proof (induction s rule: strptime_ymd.induct)
    case (1 y1 y2 y3 y4 dash rest)
    then obtain m rest' d where tok: "month_token rest = Some (m, rest')" "day_token rest' = Some d"
      by (auto split: if_splits option.splits)
    let ?y = "1000 * dval y1 + 100 * dval y2 + 10 * dval y3 + dval y4"
    have "1 \<le> ?y" "t = midnight (ymd2ord ?y m d)"
      using 1 tok by (auto simp: Let_def split: if_splits)
    moreover have "1 \<le> m \<and> m \<le> 12" using tok(1) by (rule month_token_range)
    moreover have "1 \<le> d" using tok(2) by (rule day_token_range)
    ultimately show ?case by blast
  qed simp_all
  then obtain y m d where "1 \<le> y" "1 \<le> m" "m \<le> 12" "1 \<le> d" "t = midnight (ymd2ord y m d)"
    by blast
  then show ?thesis using ymd2ord_pos [of y m d] by (simp add: toordinal_midnight)
qed


section \<open>Properties of the record store\<close>

lemma expire_scan_filter:
  "expire_scan q us acc = acc @ filter (\<lambda>(user_id, info). expire_date info = Some q) us"
  by (induction q us acc rule: expire_scan.induct) simp_all

lemma add_days_ordinal:
  assumes "1 \<le> toordinal t" "0 \<le> d \<or> toordinal t \<le> MAXORDINAL"
  shows "add_days t d =
     (if 1 \<le> toordinal t + d \<and> toordinal t + d \<le> MAXORDINAL
      then Inr (t + d * US_PER_DAY) else Inl OverflowError)"
  using assms
  by (auto simp: add_days_def dt_valid_iff toordinal_add_days MAXORDINAL_def)

lemma upsert_existing:
  assumes "map_of users user_id = Some info"
  shows "add_or_update_user now users user_id username extend_days =
     (let info1 = (case username of None \<Rightarrow> info | Some u \<Rightarrow> info\<lparr>platform_username := Some u\<rparr>)
      in if extend_days > 0 then
           (case expire_date info of
              None \<Rightarrow> Inl KeyError
            | Some s \<Rightarrow>
                (case (case strptime_ymd s of
                         Some current_expire \<Rightarrow> add_days (max current_expire now) extend_days
                       | None \<Rightarrow> add_days now extend_days) of
                   Inl e \<Rightarrow> Inl e
                 | Inr new_expire \<Rightarrow>
                     Inr (AList.update user_id (info1\<lparr>expire_date := Some (strftime_ymd new_expire)\<rparr>) users,
                          info1\<lparr>expire_date := Some (strftime_ymd new_expire)\<rparr>)))
         else Inr (AList.update user_id info1 users, info1))"
  using assms by (simp add: add_or_update_user_def Let_def split: option.splits sum.splits)

lemma upsert_extend_wellformed:
  assumes "map_of users user_id = Some info" "expire_date info = Some s"
    and "strptime_ymd s = Some current_expire" "0 < extend_days"
  shows "add_or_update_user now users user_id username extend_days =
     (if max (toordinal current_expire) (toordinal now) + extend_days \<le> MAXORDINAL
      then (let info' = (case username of None \<Rightarrow> info | Some u \<Rightarrow> info\<lparr>platform_username := Some u\<rparr>)
                  \<lparr>expire_date := Some (date_string
                        (max (toordinal current_expire) (toordinal now) + extend_days))\<rparr>
            in Inr (AList.update user_id info' users, info'))
      else Inl OverflowError)"
proof -
  let ?t = "max current_expire now"
  have ce: "1 \<le> toordinal current_expire" using strptime_midnight [OF assms(3)] by simp
  have t1: "1 \<le> toordinal ?t" using ce by (simp add: toordinal_max)
  have ad: "add_days ?t extend_days =
     (if 1 \<le> toordinal ?t + extend_days \<and> toordinal ?t + extend_days \<le> MAXORDINAL
      then Inr (?t + extend_days * US_PER_DAY) else Inl OverflowError)"
    using t1 assms(4) by (intro add_days_ordinal) simp_all
  have low: "1 \<le> toordinal ?t + extend_days" using t1 assms(4) by simp
  show ?thesis
    unfolding upsert_existing [OF assms(1)]
    using assms(2,3,4) low
    by (simp add: ad Let_def strftime_ymd_def toordinal_add_days toordinal_max)
qed



lemma get_users_by_expire_date_filter:
  "get_users_by_expire_date users q = filter (\<lambda>(user_id, info). expire_date info = Some q) users"
  by (simp add: get_users_by_expire_date_def expire_scan_filter)

lemma add_days_valid:
  assumes "dt_valid now"
  shows "add_days now d =
     (if 1 \<le> toordinal now + d \<and> toordinal now + d \<le> MAXORDINAL
      then Inr (now + d * US_PER_DAY) else Inl OverflowError)"
  using assms by (intro add_days_ordinal) (simp_all add: dt_valid_iff)

lemma toordinal_sub_days: "toordinal (t - d * US_PER_DAY) = toordinal t - d"
  using toordinal_add_days [of t "- d"] by simp

lemma store_after_cases:
  "store_after users (add_or_update_user now users u name d) = users
   \<or> (\<exists>info. store_after users (add_or_update_user now users u name d) = AList.update u info users)"
  by (auto simp: store_after_def add_or_update_user_def Let_def split: option.splits sum.splits)

lemma store_after_frame:
  assumes "other \<noteq> u"
  shows "map_of (store_after users (add_or_update_user now users u name d)) other = map_of users other"
  using store_after_cases [of users now u name d] assms
  by (auto simp: update_conv')

lemma upsert_expiry_monotone:
  assumes "expiry_day users uid = Some E"
  shows "\<exists>E'. expiry_day (store_after users (add_or_update_user now users u name d)) uid = Some E'
             \<and> E \<le> E'"
proof (cases "u = uid")
  case False
  then have "expiry_day (store_after users (add_or_update_user now users u name d)) uid
      = expiry_day users uid"
    by (simp add: expiry_day_def store_after_frame)
  then show ?thesis using assms by simp
next
  case True
  from assms obtain info s ce where rec: "map_of users uid = Some info"
      "expire_date info = Some s" "strptime_ymd s = Some ce" "toordinal ce = E"
    by (auto simp: expiry_day_def split: option.splits)
  let ?info1 = "case name of None \<Rightarrow> info | Some x \<Rightarrow> info\<lparr>platform_username := Some x\<rparr>"
  have e1: "expire_date ?info1 = Some s" using rec(2) by (simp split: option.splits)
  show ?thesis
  proof (cases "0 < d")
    case False
    then have "store_after users (add_or_update_user now users u name d)
        = AList.update uid ?info1 users"
      using True by (simp add: upsert_existing [OF rec(1)] store_after_def Let_def)
    then show ?thesis using e1 rec by (simp add: expiry_day_def update_conv')
  next
    case d: True
    let ?n = "max (toordinal ce) (toordinal now) + d"
    note eq = upsert_extend_wellformed [OF rec(1,2,3) d, of now name]
    show ?thesis
    proof (cases "?n \<le> MAXORDINAL")
      case False
      then have "store_after users (add_or_update_user now users u name d) = users"
        using True by (simp add: eq store_after_def)
      then show ?thesis using assms by simp
    next
      case n: True
      have ce1: "1 \<le> toordinal ce" using strptime_midnight [OF rec(3)] by simp
      have n1: "1 \<le> ?n" using ce1 d by simp
      have "dt_valid (midnight ?n)" using n n1 by (simp add: dt_valid_iff toordinal_midnight)
      from strptime_strftime [OF this]
      have reparse: "strptime_ymd (date_string ?n) = Some (midnight ?n)"
        by (simp add: strftime_ymd_def toordinal_midnight)
      have "store_after users (add_or_update_user now users u name d)
          = AList.update uid (?info1\<lparr>expire_date := Some (date_string ?n)\<rparr>) users"
        using True n by (simp add: eq store_after_def Let_def)
      then have "expiry_day (store_after users (add_or_update_user now users u name d)) uid
          = Some ?n"
        using reparse by (simp add: expiry_day_def update_conv' toordinal_midnight)
      moreover have "E \<le> ?n" using rec(4) d by simp
      ultimately show ?thesis by simp
    qed
  qed
qed
subsection \<open>Extending an existing record\<close>

text \<open>
  C1 (as amended). For \<^verbatim>\<open>add_or_update_user\<close> on an existing record whose stored
  \<open>expire_date\<close> parses, with \<open>extend_days > 0\<close>: the record saved and returned has
  the \<open>expire_date\<close> of the day \<open>max (current expiry) today + extend_days\<close>, whenever
  that day is no later than 9999-12-31; past that the call raises \<^verbatim>\<open>OverflowError\<close>
  and saves nothing. In particular a record that expired ten days ago, extended by 3
  today, expires three days from today.
\<close>

theorem upsert_extension_base:
  assumes "map_of users user_id = Some info" "expire_date info = Some s"
    and "strptime_ymd s = Some current_expire" "0 < extend_days"
  shows "add_or_update_user now users user_id username extend_days =
     (if max (toordinal current_expire) (toordinal now) + extend_days \<le> MAXORDINAL
      then (let info' = (case username of None \<Rightarrow> info | Some u \<Rightarrow> info\<lparr>platform_username := Some u\<rparr>)
                  \<lparr>expire_date := Some (date_string
                        (max (toordinal current_expire) (toordinal now) + extend_days))\<rparr>
            in Inr (AList.update user_id info' users, info'))
      else Inl OverflowError)
   \<and> (toordinal current_expire = toordinal now - 10 \<and> extend_days = 3
        \<and> toordinal now + 3 \<le> MAXORDINAL \<longrightarrow>
      map_option (expire_date \<circ> snd)
        (case add_or_update_user now users user_id username extend_days of
           Inl e \<Rightarrow> None | Inr r \<Rightarrow> Some r)
      = Some (Some (date_string (toordinal now + 3))))"
proof -
  note eq = upsert_extend_wellformed [OF assms, of now username]
  have "toordinal current_expire = toordinal now - 10 \<Longrightarrow> extend_days = 3
      \<Longrightarrow> toordinal now + 3 \<le> MAXORDINAL \<Longrightarrow>
      map_option (expire_date \<circ> snd)
        (case add_or_update_user now users user_id username extend_days of
           Inl e \<Rightarrow> None | Inr r \<Rightarrow> Some r)
      = Some (Some (date_string (toordinal now + 3)))"
    unfolding eq by (simp add: Let_def max_def)
  then show ?thesis using eq by blast
qed

text \<open>
  The scenario of the specification at noon of 2024-06-15: the record expired on
  2024-06-05, the extension by 3 days gives 2024-06-18.
\<close>

theorem upsert_extension_base_witness:
  "strftime_ymd (midnight 739052 + 43200000000) = str ''2024-06-15''
   \<and> add_or_update_user (midnight 739052 + 43200000000)
        [(str ''10001'', \<lparr>platform_username = Some (str ''bob''),
                           start_date = Some (str ''2024-01-01''),
                           expire_date = Some (str ''2024-06-05'')\<rparr>)]
        (str ''10001'') None 3
      = Inr ([(str ''10001'', \<lparr>platform_username = Some (str ''bob''),
                                 start_date = Some (str ''2024-01-01''),
                                 expire_date = Some (str ''2024-06-18'')\<rparr>)],
             \<lparr>platform_username = Some (str ''bob''),
              start_date = Some (str ''2024-01-01''),
              expire_date = Some (str ''2024-06-18'')\<rparr>)"
proof -
  let ?now = "midnight 739052 + 43200000000"
  let ?info = "\<lparr>platform_username = Some (str ''bob''),
                 start_date = Some (str ''2024-01-01''),
                 expire_date = Some (str ''2024-06-05'')\<rparr>"
  have h1: "map_of [(str ''10001'', ?info)] (str ''10001'') = Some ?info" by simp
  have h2: "expire_date ?info = Some (str ''2024-06-05'')" by simp
  have h3: "strptime_ymd (str ''2024-06-05'') = Some (midnight 739042)" by code_simp
  have h4: "(0::int) < 3" by simp
  have d: "date_string (max (toordinal (midnight 739042)) (toordinal ?now) + 3) = str ''2024-06-18''"
    by code_simp
  have c: "max (toordinal (midnight 739042)) (toordinal ?now) + 3 \<le> MAXORDINAL"
    by code_simp
  have t: "strftime_ymd ?now = str ''2024-06-15''" by code_simp
  show ?thesis
    using upsert_extension_base [OF h1 h2 h3 h4, of ?now None] d c t
    by (simp add: Let_def)
qed

text \<open>
  The same record and clock with \<open>extend_days = 3000000\<close>, as an administrator can
  type it in the extension command: the sum leaves the range of \<^verbatim>\<open>datetime\<close>, the
  exception escapes \<^verbatim>\<open>add_or_update_user\<close> and no new \<open>expire_date\<close> exists.
\<close>

theorem upsert_extension_overflow:
  "map_of [(str ''10001'', \<lparr>platform_username = Some (str ''bob''),
                              start_date = Some (str ''2024-01-01''),
                              expire_date = Some (str ''2024-06-05'')\<rparr>)] (str ''10001'')
     = Some \<lparr>platform_username = Some (str ''bob''),
              start_date = Some (str ''2024-01-01''),
              expire_date = Some (str ''2024-06-05'')\<rparr>
   \<and> strptime_ymd (str ''2024-06-05'') = Some (midnight 739042)
   \<and> strftime_ymd (midnight 739052 + 43200000000) = str ''2024-06-15''
   \<and> add_or_update_user (midnight 739052 + 43200000000)
        [(str ''10001'', \<lparr>platform_username = Some (str ''bob''),
                           start_date = Some (str ''2024-01-01''),
                           expire_date = Some (str ''2024-06-05'')\<rparr>)]
        (str ''10001'') None 3000000
      = Inl OverflowError"
  by code_simp


subsection \<open>Extensions never move the expiry back\<close>

text \<open>
  C2. For every record whose stored \<open>expire_date\<close> parses and every finite sequence of
  \<^verbatim>\<open>add_or_update_user\<close> calls (whatever their clock readings, targets, user names and
  day counts, so in particular extension calls with \<open>extend_days > 0\<close>), the record's
  \<open>expire_date\<close> after each call still parses and is on or after its \<open>expire_date\<close>
  before that call: the days read after the calls form an ascending chain from the
  first one. A call that raises leaves the date as it was.
\<close>

theorem expiry_never_decreases:
  assumes "expiry_day users uid = Some E0"
  shows "\<exists>days. map (\<lambda>us. expiry_day us uid) (run_calls users calls) = map Some days
               \<and> sorted (E0 # days)"
  using assms
proof (induction calls arbitrary: users E0)
  case Nil
  show ?case by simp
next
  case (Cons c calls)
  obtain now u name d where c: "c = (now, u, name, d)" by (cases c) auto
  let ?users' = "store_after users (add_or_update_user now users u name d)"
  obtain E1 where E1: "expiry_day ?users' uid = Some E1" "E0 \<le> E1"
    using upsert_expiry_monotone [OF Cons.prems] by blast
  obtain days where days: "map (\<lambda>us. expiry_day us uid) (run_calls ?users' calls) = map Some days"
      "sorted (E1 # days)"
    using Cons.IH [OF E1(1)] by blast
  have "map (\<lambda>us. expiry_day us uid) (run_calls users (c # calls)) = map Some (E1 # days)"
    using c E1(1) days(1) by (simp add: Let_def)
  moreover have "sorted (E0 # E1 # days)" using E1(2) days(2) by auto
  ultimately show ?case by blast
qed

text \<open>
  A record that expired on 2024-06-05 (ordinal 739042): extended by 3 at noon of
  2024-06-15, then by an amount that overflows, then by 2 on 2024-06-17.
\<close>

theorem expiry_never_decreases_witness:
  "expiry_day [(str ''10001'', \<lparr>platform_username = Some (str ''ann''),
                                 start_date = Some (str ''2024-01-01''),
                                 expire_date = Some (str ''2024-06-05'')\<rparr>)] (str ''10001'')
     = Some 739042
   \<and> map (\<lambda>us. expiry_day us (str ''10001''))
        (run_calls [(str ''10001'', \<lparr>platform_username = Some (str ''ann''),
                                      start_date = Some (str ''2024-01-01''),
                                      expire_date = Some (str ''2024-06-05'')\<rparr>)]
           [(midnight 739052 + 43200000000, str ''10001'', None, 3),
            (midnight 739053 + 43200000000, str ''10001'', None, 3000000),
            (midnight 739054, str ''10001'', Some (str ''anna''), 2)])
     = [Some 739055, Some 739055, Some 739057]
   \<and> (\<exists>days. map (\<lambda>us. expiry_day us (str ''10001''))
        (run_calls [(str ''10001'', \<lparr>platform_username = Some (str ''ann''),
                                      start_date = Some (str ''2024-01-01''),
                                      expire_date = Some (str ''2024-06-05'')\<rparr>)]
           [(midnight 739052 + 43200000000, str ''10001'', None, 3),
            (midnight 739053 + 43200000000, str ''10001'', None, 3000000),
            (midnight 739054, str ''10001'', Some (str ''anna''), 2)])
       = map Some days \<and> sorted (739042 # days))"
proof -
  let ?users = "[(str ''10001'', \<lparr>platform_username = Some (str ''ann''),
                                   start_date = Some (str ''2024-01-01''),
                                   expire_date = Some (str ''2024-06-05'')\<rparr>)]"
  let ?calls = "[(midnight 739052 + 43200000000, str ''10001'', None, 3),
                 (midnight 739053 + 43200000000, str ''10001'', None, 3000000),
                 (midnight 739054, str ''10001'', Some (str ''anna''), 2)]"
  have h: "expiry_day ?users (str ''10001'') = Some 739042" by code_simp
  have e: "map (\<lambda>us. expiry_day us (str ''10001'')) (run_calls ?users ?calls)
      = [Some 739055, Some 739055, Some 739057]" by code_simp
  show ?thesis
    using expiry_never_decreases [OF h, of ?calls] h e by simp
qed

subsection \<open>The exact-date scans\<close>

text \<open>
  C5 (as amended). \<^verbatim>\<open>get_users_by_expire_date\<close> returns, in the order of the document,
  exactly the pairs whose stored \<open>expire_date\<close> text equals the query.
  \<^verbatim>\<open>get_expiring_users(days)\<close> returns exactly the users whose \<open>expire_date\<close> is the
  text of today + days, and \<^verbatim>\<open>get_expired_users(days_ago)\<close> those of today - days_ago,
  whenever that day lies between 1000-01-01 and 9999-12-31; when it lies outside the range
  of \<^verbatim>\<open>datetime\<close> (before 0001-01-01 or after 9999-12-31) the call raises
  \<^verbatim>\<open>OverflowError\<close>. Nothing is stated for a target in the years 1 to 999, where the
  text that \<^verbatim>\<open>strftime\<close> prints depends on the C library.
\<close>

theorem expiry_queries:
  assumes "dt_valid now"
  shows "get_users_by_expire_date users q
           = filter (\<lambda>(user_id, info). expire_date info = Some q) users
   \<and> (YEAR_1000 \<le> toordinal now + days \<and> toordinal now + days \<le> MAXORDINAL \<longrightarrow>
        get_expiring_users now users days =
          Inr (filter (\<lambda>(user_id, info).
                 expire_date info = Some (date_string (toordinal now + days))) users))
   \<and> (toordinal now + days < 1 \<or> MAXORDINAL < toordinal now + days \<longrightarrow>
        get_expiring_users now users days = Inl OverflowError)
   \<and> (YEAR_1000 \<le> toordinal now - days_ago \<and> toordinal now - days_ago \<le> MAXORDINAL \<longrightarrow>
        get_expired_users now users days_ago =
          Inr (filter (\<lambda>(user_id, info).
                 expire_date info = Some (date_string (toordinal now - days_ago))) users))
   \<and> (toordinal now - days_ago < 1 \<or> MAXORDINAL < toordinal now - days_ago \<longrightarrow>
        get_expired_users now users days_ago = Inl OverflowError)"
  by (auto simp: get_expiring_users_def get_expired_users_def add_days_valid [OF assms]
      get_users_by_expire_date_filter strftime_ymd_def toordinal_add_days toordinal_sub_days
      YEAR_1000_def)

text \<open>At noon of 2024-06-15: the users expiring on 2024-06-18, and those expired on 2024-06-14.\<close>

theorem expiry_queries_witness:
  "strftime_ymd (midnight 739052 + 43200000000) = str ''2024-06-15''
   \<and> date_string YEAR_1000 = str ''1000-01-01''
   \<and> get_users_by_expire_date
        [(str ''10001'', \<lparr>platform_username = Some (str ''ann''),
                           start_date = Some (str ''2024-01-01''),
                           expire_date = Some (str ''2024-06-18'')\<rparr>),
         (str ''10002'', \<lparr>platform_username = Some (str ''bob''),
                           start_date = Some (str ''2024-02-01''),
                           expire_date = Some (str ''2024-06-14'')\<rparr>),
         (str ''10003'', \<lparr>platform_username = None,
                           start_date = Some (str ''2024-03-01''),
                           expire_date = Some (str ''2024-06-18'')\<rparr>)]
        (str ''2024-06-14'')
      = [(str ''10002'', \<lparr>platform_username = Some (str ''bob''),
                           start_date = Some (str ''2024-02-01''),
                           expire_date = Some (str ''2024-06-14'')\<rparr>)]
   \<and> get_expiring_users (midnight 739052 + 43200000000)
        [(str ''10001'', \<lparr>platform_username = Some (str ''ann''),
                           start_date = Some (str ''2024-01-01''),
                           expire_date = Some (str ''2024-06-18'')\<rparr>),
         (str ''10002'', \<lparr>platform_username = Some (str ''bob''),
                           start_date = Some (str ''2024-02-01''),
                           expire_date = Some (str ''2024-06-14'')\<rparr>),
         (str ''10003'', \<lparr>platform_username = None,
                           start_date = Some (str ''2024-03-01''),
                           expire_date = Some (str ''2024-06-18'')\<rparr>)] 3
      = Inr [(str ''10001'', \<lparr>platform_username = Some (str ''ann''),
                           start_date = Some (str ''2024-01-01''),
                           expire_date = Some (str ''2024-06-18'')\<rparr>),
             (str ''10003'', \<lparr>platform_username = None,
                           start_date = Some (str ''2024-03-01''),
                           expire_date = Some (str ''2024-06-18'')\<rparr>)]
   \<and> get_expired_users (midnight 739052 + 43200000000)
        [(str ''10001'', \<lparr>platform_username = Some (str ''ann''),
                           start_date = Some (str ''2024-01-01''),
                           expire_date = Some (str ''2024-06-18'')\<rparr>),
         (str ''10002'', \<lparr>platform_username = Some (str ''bob''),
                           start_date = Some (str ''2024-02-01''),
                           expire_date = Some (str ''2024-06-14'')\<rparr>),
         (str ''10003'', \<lparr>platform_username = None,
                           start_date = Some (str ''2024-03-01''),
                           expire_date = Some (str ''2024-06-18'')\<rparr>)] 1
      = Inr [(str ''10002'', \<lparr>platform_username = Some (str ''bob''),
                           start_date = Some (str ''2024-02-01''),
                           expire_date = Some (str ''2024-06-14'')\<rparr>)]"
proof -
  let ?now = "midnight 739052 + 43200000000"
  have v: "dt_valid ?now" by code_simp
  have t: "strftime_ymd ?now = str ''2024-06-15''" by code_simp
  have y0: "date_string YEAR_1000 = str ''1000-01-01''" by code_simp
  have d3: "date_string (toordinal ?now + 3) = str ''2024-06-18''" by code_simp
  have d1: "date_string (toordinal ?now - 1) = str ''2024-06-14''" by code_simp
  have r: "1 \<le> toordinal ?now + 3" "toordinal ?now + 3 \<le> MAXORDINAL"
    "1 \<le> toordinal ?now - 1" "toordinal ?now - 1 \<le> MAXORDINAL"
    by code_simp+
  have s: "str ''2024-06-18'' \<noteq> str ''2024-06-14''" by (simp add: str_def)
  have y: "YEAR_1000 \<le> toordinal ?now + 3" "YEAR_1000 \<le> toordinal ?now - 1"
    by code_simp+
  show ?thesis
    using expiry_queries [OF v, of
        "[(str ''10001'', \<lparr>platform_username = Some (str ''ann''),
                           start_date = Some (str ''2024-01-01''),
                           expire_date = Some (str ''2024-06-18'')\<rparr>),
         (str ''10002'', \<lparr>platform_username = Some (str ''bob''),
                           start_date = Some (str ''2024-02-01''),
                           expire_date = Some (str ''2024-06-14'')\<rparr>),
         (str ''10003'', \<lparr>platform_username = None,
                           start_date = Some (str ''2024-03-01''),
                           expire_date = Some (str ''2024-06-18'')\<rparr>)]"
        "str ''2024-06-14''" 3 1] t y0 d3 d1 r s y
    by simp
qed

text \<open>
  Day counts that take the target date out of the range of \<^verbatim>\<open>datetime\<close>: both wrappers
  raise instead of returning a list.
\<close>

theorem expiry_queries_overflow:
  "dt_valid (midnight 739052 + 43200000000)
   \<and> strftime_ymd (midnight 739052 + 43200000000) = str ''2024-06-15''
   \<and> get_expiring_users (midnight 739052 + 43200000000)
        [(str ''10001'', \<lparr>platform_username = Some (str ''ann''),
                           start_date = Some (str ''2024-01-01''),
                           expire_date = Some (str ''2024-06-18'')\<rparr>)] 3000000
      = Inl OverflowError
   \<and> get_expired_users (midnight 739052 + 43200000000)
        [(str ''10001'', \<lparr>platform_username = Some (str ''ann''),
                           start_date = Some (str ''2024-01-01''),
                           expire_date = Some (str ''2024-06-18'')\<rparr>)] 800000
      = Inl OverflowError"
  by code_simp

subsection \<open>What an update leaves alone\<close>



section \<open>Properties of the command service\<close>

lemma command_words_distinct:
  "CMD_EXTEND \<noteq> CMD_USERNAME" "CMD_LIST \<noteq> CMD_USERNAME" "CMD_LIST \<noteq> CMD_EXTEND"
  "CMD_LIST \<noteq> CMD_CHECK" "CMD_LIST \<noteq> CMD_HELP" "CMD_CHECK \<noteq> CMD_USERNAME"
  "CMD_CHECK \<noteq> CMD_EXTEND"
  by (simp_all add: CMD_EXTEND_def CMD_USERNAME_def CMD_LIST_def CMD_CHECK_def CMD_HELP_def str_def)

lemma process_message_parts:
  assumes "py_split (py_strip message_text) = first # args"
  shows "process_message L now st message_text sender_id =
     (if str_lower L first = CMD_USERNAME then
        (case handle_yhm_command L now st (first # args) message_text sender_id of
           (r, st') \<Rightarrow> (Some r, st'))
      else if str_lower L first = CMD_EXTEND then
        (case handle_extend_time_command L now st (first # args) message_text sender_id of
           (r, st') \<Rightarrow> (Some r, st'))
      else if str_lower L first = CMD_CHECK then
        (Some (handle_check_expire_command now (users_doc st) sender_id), st)
      else if str_lower L first = CMD_LIST \<and> is_admin st sender_id then
        (Some (get_user_list now (users_doc st)), st)
      else if str_lower L first = CMD_HELP then
        (Some (get_help_text st sender_id), st)
      else (None, st))"
  unfolding process_message_def Let_def assms by simp

lemma split_list_word: "py_split (py_strip CMD_LIST) = [CMD_LIST]"
  by (simp add: py_split_def py_strip_def CMD_LIST_def is_space_def)

lemma lower_list_word: "str_lower ascii_lib CMD_LIST = CMD_LIST"
  by (simp add: ascii_lib_def ascii_lower_def CMD_LIST_def)

lemma delta_days_midnight:
  "delta_days (midnight e) now
     = e - toordinal now - (if now mod US_PER_DAY = 0 then 0 else 1)"
proof -
  have "(midnight e - now) div US_PER_DAY = (e - 1) + (- now) div US_PER_DAY"
    by (simp add: midnight_def US_PER_DAY_def)
  moreover have "(- now) div US_PER_DAY
      = (if now mod US_PER_DAY = 0 then - (now div US_PER_DAY) else - (now div US_PER_DAY) - 1)"
    by (rule zdiv_zminus1_eq_if) (simp add: US_PER_DAY_def)
  ultimately show ?thesis by (simp add: delta_days_def toordinal_def)
qed

subsection \<open>Commands of administrators sent by others\<close>

text \<open>
  C3 (as amended). For every message whose command token is the set-username command
  \<^verbatim>\<open>/yhm\<close> or the extend command and every sender that is not in the admin list,
  \<^verbatim>\<open>process_message\<close> returns the permission-denied reply; for the list-users command
  from such a sender it returns no reply at all. In all three cases the plugin, and so
  the persisted user store, is unchanged.
\<close>

theorem admin_commands_from_others:
  assumes "py_split (py_strip message_text) = first # args"
    and "\<not> is_admin st sender_id"
  shows "(str_lower L first = CMD_USERNAME \<or> str_lower L first = CMD_EXTEND \<longrightarrow>
            process_message L now st message_text sender_id = (Some PermissionDenied, st))
       \<and> (str_lower L first = CMD_LIST \<longrightarrow>
            process_message L now st message_text sender_id = (None, st))"
proof -
  note pm = process_message_parts [OF assms(1), of L now st sender_id]
  have a: "str_lower L first = CMD_USERNAME \<Longrightarrow>
      process_message L now st message_text sender_id = (Some PermissionDenied, st)"
    using assms(2) by (simp add: pm handle_yhm_command_def)
  have b: "str_lower L first = CMD_EXTEND \<Longrightarrow>
      process_message L now st message_text sender_id = (Some PermissionDenied, st)"
    using assms(2) command_words_distinct(1)
    by (simp add: pm handle_extend_time_command_def)
  have c: "str_lower L first = CMD_LIST \<Longrightarrow>
      process_message L now st message_text sender_id = (None, st)"
    using assms(2) command_words_distinct
    by (simp add: pm)
  show ?thesis using a b c by blast
qed

text \<open>The user 10001, who is no administrator, sends \<^verbatim>\<open>/YHM bob @10001\<close> and an extend command.\<close>

theorem admin_commands_from_others_witness:
  "process_message ascii_lib (midnight 739052 + 43200000000)
        \<lparr>users_doc = [(str ''10001'', \<lparr>platform_username = Some (str ''ann''),
                          start_date = Some (str ''2024-01-01''),
                          expire_date = Some (str ''2024-06-15'')\<rparr>)],
          config_doc = \<lparr>cfg_admins = Some [str ''90001''],
            cfg_reminder_enabled = Some True, cfg_reminder_days_before = Some [3, 0],
            cfg_expired_check_days = Some 1, cfg_group_id = Some []\<rparr>,
          config_mem = \<lparr>cfg_admins = Some [str ''90001''],
            cfg_reminder_enabled = Some True, cfg_reminder_days_before = Some [3, 0],
            cfg_expired_check_days = Some 1, cfg_group_id = Some []\<rparr>,
          admins = [str ''90001''], group_id = [], reminder_task_running = True\<rparr>
        (str ''/YHM bob @10001'') (str ''10001'')
     = (Some PermissionDenied,
        \<lparr>users_doc = [(str ''10001'', \<lparr>platform_username = Some (str ''ann''),
                          start_date = Some (str ''2024-01-01''),
                          expire_date = Some (str ''2024-06-15'')\<rparr>)],
          config_doc = \<lparr>cfg_admins = Some [str ''90001''],
            cfg_reminder_enabled = Some True, cfg_reminder_days_before = Some [3, 0],
            cfg_expired_check_days = Some 1, cfg_group_id = Some []\<rparr>,
          config_mem = \<lparr>cfg_admins = Some [str ''90001''],
            cfg_reminder_enabled = Some True, cfg_reminder_days_before = Some [3, 0],
            cfg_expired_check_days = Some 1, cfg_group_id = Some []\<rparr>,
          admins = [str ''90001''], group_id = [], reminder_task_running = True\<rparr>)
   \<and> process_message ascii_lib (midnight 739052 + 43200000000)
        \<lparr>users_doc = [(str ''10001'', \<lparr>platform_username = Some (str ''ann''),
                          start_date = Some (str ''2024-01-01''),
                          expire_date = Some (str ''2024-06-15'')\<rparr>)],
          config_doc = \<lparr>cfg_admins = Some [str ''90001''],
            cfg_reminder_enabled = Some True, cfg_reminder_days_before = Some [3, 0],
            cfg_expired_check_days = Some 1, cfg_group_id = Some []\<rparr>,
          config_mem = \<lparr>cfg_admins = Some [str ''90001''],
            cfg_reminder_enabled = Some True, cfg_reminder_days_before = Some [3, 0],
            cfg_expired_check_days = Some 1, cfg_group_id = Some []\<rparr>,
          admins = [str ''90001''], group_id = [], reminder_task_running = True\<rparr>
        (CMD_EXTEND @ str '' 30 @10001'') (str ''10001'')
     = (Some PermissionDenied,
        \<lparr>users_doc = [(str ''10001'', \<lparr>platform_username = Some (str ''ann''),
                          start_date = Some (str ''2024-01-01''),
                          expire_date = Some (str ''2024-06-15'')\<rparr>)],
          config_doc = \<lparr>cfg_admins = Some [str ''90001''],
            cfg_reminder_enabled = Some True, cfg_reminder_days_before = Some [3, 0],
            cfg_expired_check_days = Some 1, cfg_group_id = Some []\<rparr>,
          config_mem = \<lparr>cfg_admins = Some [str ''90001''],
            cfg_reminder_enabled = Some True, cfg_reminder_days_before = Some [3, 0],
            cfg_expired_check_days = Some 1, cfg_group_id = Some []\<rparr>,
          admins = [str ''90001''], group_id = [], reminder_task_running = True\<rparr>)"
proof -
  let ?st = "\<lparr>users_doc = [(str ''10001'', \<lparr>platform_username = Some (str ''ann''),
                          start_date = Some (str ''2024-01-01''),
                          expire_date = Some (str ''2024-06-15'')\<rparr>)],
          config_doc = \<lparr>cfg_admins = Some [str ''90001''],
            cfg_reminder_enabled = Some True, cfg_reminder_days_before = Some [3, 0],
            cfg_expired_check_days = Some 1, cfg_group_id = Some []\<rparr>,
          config_mem = \<lparr>cfg_admins = Some [str ''90001''],
            cfg_reminder_enabled = Some True, cfg_reminder_days_before = Some [3, 0],
            cfg_expired_check_days = Some 1, cfg_group_id = Some []\<rparr>,
          admins = [str ''90001''], group_id = [], reminder_task_running = True\<rparr>"
  have na: "\<not> is_admin ?st (str ''10001'')" by (simp add: is_admin_def str_def)
  have s1: "py_split (py_strip (str ''/YHM bob @10001''))
      = str ''/YHM'' # [str ''bob'', str ''@10001'']"
    by (simp add: py_split_def py_strip_def is_space_def str_def)
  have l1: "str_lower ascii_lib (str ''/YHM'') = CMD_USERNAME"
    by (simp add: ascii_lib_def ascii_lower_def CMD_USERNAME_def str_def)
  have s2: "py_split (py_strip (CMD_EXTEND @ str '' 30 @10001''))
      = CMD_EXTEND # [str ''30'', str ''@10001'']"
    by (simp add: py_split_def py_strip_def is_space_def str_def CMD_EXTEND_def)
  have l2: "str_lower ascii_lib CMD_EXTEND = CMD_EXTEND"
    by (simp add: ascii_lib_def ascii_lower_def CMD_EXTEND_def)
  show ?thesis
    using admin_commands_from_others [OF s1 na, of ascii_lib "midnight 739052 + 43200000000"]
      admin_commands_from_others [OF s2 na, of ascii_lib "midnight 739052 + 43200000000"] l1 l2
    by simp
qed

text \<open>
  The list-users command from a sender outside the admin list: the branch of
  \<^verbatim>\<open>process_message\<close> is guarded by \<^verbatim>\<open>is_admin\<close>, the message falls through to the end
  and the reply is \<open>None\<close>, not the permission-denied reply.
\<close>

theorem list_command_from_other_is_silent:
  "\<not> is_admin
        \<lparr>users_doc = [], config_doc = \<lparr>cfg_admins = Some [str ''90001''],
            cfg_reminder_enabled = Some True, cfg_reminder_days_before = Some [3, 0],
            cfg_expired_check_days = Some 1, cfg_group_id = Some []\<rparr>,
          config_mem = \<lparr>cfg_admins = Some [str ''90001''],
            cfg_reminder_enabled = Some True, cfg_reminder_days_before = Some [3, 0],
            cfg_expired_check_days = Some 1, cfg_group_id = Some []\<rparr>,
          admins = [str ''90001''], group_id = [], reminder_task_running = True\<rparr>
        (str ''10001'')
   \<and> py_split (py_strip CMD_LIST) = [CMD_LIST]
   \<and> str_lower ascii_lib CMD_LIST = CMD_LIST
   \<and> process_message ascii_lib (midnight 739052 + 43200000000)
        \<lparr>users_doc = [], config_doc = \<lparr>cfg_admins = Some [str ''90001''],
            cfg_reminder_enabled = Some True, cfg_reminder_days_before = Some [3, 0],
            cfg_expired_check_days = Some 1, cfg_group_id = Some []\<rparr>,
          config_mem = \<lparr>cfg_admins = Some [str ''90001''],
            cfg_reminder_enabled = Some True, cfg_reminder_days_before = Some [3, 0],
            cfg_expired_check_days = Some 1, cfg_group_id = Some []\<rparr>,
          admins = [str ''90001''], group_id = [], reminder_task_running = True\<rparr>
        CMD_LIST (str ''10001'')
     = (None,
        \<lparr>users_doc = [], config_doc = \<lparr>cfg_admins = Some [str ''90001''],
            cfg_reminder_enabled = Some True, cfg_reminder_days_before = Some [3, 0],
            cfg_expired_check_days = Some 1, cfg_group_id = Some []\<rparr>,
          config_mem = \<lparr>cfg_admins = Some [str ''90001''],
            cfg_reminder_enabled = Some True, cfg_reminder_days_before = Some [3, 0],
            cfg_expired_check_days = Some 1, cfg_group_id = Some []\<rparr>,
          admins = [str ''90001''], group_id = [], reminder_task_running = True\<rparr>)"
proof -
  have na: "\<not> is_admin
        \<lparr>users_doc = [], config_doc = \<lparr>cfg_admins = Some [str ''90001''],
            cfg_reminder_enabled = Some True, cfg_reminder_days_before = Some [3, 0],
            cfg_expired_check_days = Some 1, cfg_group_id = Some []\<rparr>,
          config_mem = \<lparr>cfg_admins = Some [str ''90001''],
            cfg_reminder_enabled = Some True, cfg_reminder_days_before = Some [3, 0],
            cfg_expired_check_days = Some 1, cfg_group_id = Some []\<rparr>,
          admins = [str ''90001''], group_id = [], reminder_task_running = True\<rparr>
        (str ''10001'')"
    by (simp add: is_admin_def str_def)
  show ?thesis
    using na split_list_word lower_list_word command_words_distinct
    by (simp add: process_message_parts [OF split_list_word])
qed

subsection \<open>The days left that check-expiry computes\<close>

text \<open>
  C4. What \<^verbatim>\<open>handle_check_expire_command\<close> computes for a sender whose stored
  \<open>expire_date\<close> parses: \<^verbatim>\<open>(expire_datetime - datetime.now()).days\<close> is the difference of
  the two calendar days, less one whenever the clock is not exactly at midnight. So the
  three states are shifted by a day against the claim: on the expiry day itself the reply
  is "expired 1 day ago", and "expires today" is the reply on the day before.
\<close>

theorem check_expiry_days_left:
  assumes "map_of users sender_id = Some info" "expire_date info = Some s"
    and "strptime_ymd s = Some expire_datetime"
  shows "handle_check_expire_command now users sender_id =
     ServiceStatus (or_default (platform_username info) NOT_SET)
       (or_default (start_date info) UNKNOWN) s
       (let days_left = toordinal expire_datetime - toordinal now
                          - (if now mod US_PER_DAY = 0 then 0 else 1)
        in if days_left > 0 then DaysLeft days_left
           else if days_left = 0 then ExpiresToday
           else ExpiredDays (- days_left))"
proof -
  have m: "expire_datetime = midnight (toordinal expire_datetime)"
    using strptime_midnight [OF assms(3)] by simp
  have d: "delta_days expire_datetime now
      = toordinal expire_datetime - toordinal now - (if now mod US_PER_DAY = 0 then 0 else 1)"
    using delta_days_midnight [of "toordinal expire_datetime" now] m by simp
  show ?thesis
    using assms
    by (simp add: handle_check_expire_command_def get_user_info_def or_default_def
        expiry_status_def d Let_def)
qed

text \<open>
  At noon of 2024-06-15: a record expiring on 2024-06-15 is reported as expired one day
  ago, and a record expiring on 2024-06-16 as expiring today.
\<close>

theorem check_expiry_on_the_expiry_day:
  "strftime_ymd (midnight 739052 + 43200000000) = str ''2024-06-15''
   \<and> handle_check_expire_command (midnight 739052 + 43200000000)
        [(str ''10001'', \<lparr>platform_username = Some (str ''ann''),
                           start_date = Some (str ''2024-01-01''),
                           expire_date = Some (str ''2024-06-15'')\<rparr>)] (str ''10001'')
      = ServiceStatus (str ''ann'') (str ''2024-01-01'') (str ''2024-06-15'') (ExpiredDays 1)
   \<and> handle_check_expire_command (midnight 739052 + 43200000000)
        [(str ''10001'', \<lparr>platform_username = Some (str ''ann''),
                           start_date = Some (str ''2024-01-01''),
                           expire_date = Some (str ''2024-06-16'')\<rparr>)] (str ''10001'')
      = ServiceStatus (str ''ann'') (str ''2024-01-01'') (str ''2024-06-16'') ExpiresToday"
proof -
  let ?now = "midnight 739052 + 43200000000"
  let ?i1 = "\<lparr>platform_username = Some (str ''ann''), start_date = Some (str ''2024-01-01''),
               expire_date = Some (str ''2024-06-15'')\<rparr>"
  let ?i2 = "\<lparr>platform_username = Some (str ''ann''), start_date = Some (str ''2024-01-01''),
               expire_date = Some (str ''2024-06-16'')\<rparr>"
  have t: "strftime_ymd ?now = str ''2024-06-15''" by code_simp
  have h1: "map_of [(str ''10001'', ?i1)] (str ''10001'') = Some ?i1" by simp
  have h2: "map_of [(str ''10001'', ?i2)] (str ''10001'') = Some ?i2" by simp
  have p1: "strptime_ymd (str ''2024-06-15'') = Some (midnight 739052)" by code_simp
  have p2: "strptime_ymd (str ''2024-06-16'') = Some (midnight 739053)" by code_simp
  have o: "toordinal ?now = 739052" "?now mod US_PER_DAY \<noteq> 0" by code_simp+
  show ?thesis
    using check_expiry_days_left [OF h1 _ p1, of ?now]
      check_expiry_days_left [OF h2 _ p2, of ?now] t o
    by (simp add: toordinal_midnight or_default_def)
qed

subsection \<open>Check-expiry of an unknown sender\<close>

text \<open>
  C6. For every sender id with no record in the store, the check-expiry command returns
  the "no record" reply, and the plugin afterwards is the plugin before: the user store
  holds exactly the same records, none is created.
\<close>

theorem check_expiry_unknown_sender:
  assumes "py_split (py_strip message_text) = first # args"
    and "str_lower L first = CMD_CHECK"
    and "map_of (users_doc st) sender_id = None"
  shows "process_message L now st message_text sender_id = (Some NoRecord, st)
       \<and> handle_check_expire_command now (users_doc st) sender_id = NoRecord"
  using assms(2,3) command_words_distinct
  by (simp add: process_message_parts [OF assms(1)] handle_check_expire_command_def
      get_user_info_def)

text \<open>The sender 20002 has no record; the store keeps its one record of 10001.\<close>

theorem check_expiry_unknown_sender_witness:
  "map_of (users_doc
        \<lparr>users_doc = [(str ''10001'', \<lparr>platform_username = Some (str ''ann''),
                          start_date = Some (str ''2024-01-01''),
                          expire_date = Some (str ''2024-06-15'')\<rparr>)],
          config_doc = \<lparr>cfg_admins = Some [str ''90001''],
            cfg_reminder_enabled = Some True, cfg_reminder_days_before = Some [3, 0],
            cfg_expired_check_days = Some 1, cfg_group_id = Some []\<rparr>,
          config_mem = \<lparr>cfg_admins = Some [str ''90001''],
            cfg_reminder_enabled = Some True, cfg_reminder_days_before = Some [3, 0],
            cfg_expired_check_days = Some 1, cfg_group_id = Some []\<rparr>,
          admins = [str ''90001''], group_id = [], reminder_task_running = True\<rparr>) (str ''20002'') = None
   \<and> process_message ascii_lib (midnight 739052 + 43200000000)
        \<lparr>users_doc = [(str ''10001'', \<lparr>platform_username = Some (str ''ann''),
                          start_date = Some (str ''2024-01-01''),
                          expire_date = Some (str ''2024-06-15'')\<rparr>)],
          config_doc = \<lparr>cfg_admins = Some [str ''90001''],
            cfg_reminder_enabled = Some True, cfg_reminder_days_before = Some [3, 0],
            cfg_expired_check_days = Some 1, cfg_group_id = Some []\<rparr>,
          config_mem = \<lparr>cfg_admins = Some [str ''90001''],
            cfg_reminder_enabled = Some True, cfg_reminder_days_before = Some [3, 0],
            cfg_expired_check_days = Some 1, cfg_group_id = Some []\<rparr>,
          admins = [str ''90001''], group_id = [], reminder_task_running = True\<rparr>
        CMD_CHECK (str ''20002'')
     = (Some NoRecord,
        \<lparr>users_doc = [(str ''10001'', \<lparr>platform_username = Some (str ''ann''),
                          start_date = Some (str ''2024-01-01''),
                          expire_date = Some (str ''2024-06-15'')\<rparr>)],
          config_doc = \<lparr>cfg_admins = Some [str ''90001''],
            cfg_reminder_enabled = Some True, cfg_reminder_days_before = Some [3, 0],
            cfg_expired_check_days = Some 1, cfg_group_id = Some []\<rparr>,
          config_mem = \<lparr>cfg_admins = Some [str ''90001''],
            cfg_reminder_enabled = Some True, cfg_reminder_days_before = Some [3, 0],
            cfg_expired_check_days = Some 1, cfg_group_id = Some []\<rparr>,
          admins = [str ''90001''], group_id = [], reminder_task_running = True\<rparr>)"
proof -
  let ?st = "\<lparr>users_doc = [(str ''10001'', \<lparr>platform_username = Some (str ''ann''),
                          start_date = Some (str ''2024-01-01''),
                          expire_date = Some (str ''2024-06-15'')\<rparr>)],
          config_doc = \<lparr>cfg_admins = Some [str ''90001''],
            cfg_reminder_enabled = Some True, cfg_reminder_days_before = Some [3, 0],
            cfg_expired_check_days = Some 1, cfg_group_id = Some []\<rparr>,
          config_mem = \<lparr>cfg_admins = Some [str ''90001''],
            cfg_reminder_enabled = Some True, cfg_reminder_days_before = Some [3, 0],
            cfg_expired_check_days = Some 1, cfg_group_id = Some []\<rparr>,
          admins = [str ''90001''], group_id = [], reminder_task_running = True\<rparr>"
  have u: "map_of (users_doc ?st) (str ''20002'') = None" by (simp add: str_def)
  have s1: "py_split (py_strip CMD_CHECK) = CMD_CHECK # []"
    by (simp add: py_split_def py_strip_def is_space_def CMD_CHECK_def)
  have l1: "str_lower ascii_lib CMD_CHECK = CMD_CHECK"
    by (simp add: ascii_lib_def ascii_lower_def CMD_CHECK_def)
  show ?thesis
    using check_expiry_unknown_sender [OF s1 l1 u, of "midnight 739052 + 43200000000"] u
    by simp
qed

subsection \<open>Finding the mentioned user\<close>

lemma re_search_None: "re_search m t = None \<longleftrightarrow> (\<forall>k. m (drop k t) = None)"
proof (induction t)
  case Nil
  show ?case by simp
next
  case (Cons c cs)
  have "(\<forall>k. m (drop k (c # cs)) = None) \<longleftrightarrow> m (c # cs) = None \<and> (\<forall>k. m (drop k cs) = None)"
  proof
    assume a: "\<forall>k. m (drop k (c # cs)) = None"
    have "m (c # cs) = None" using a [rule_format, of 0] by simp
    moreover have "\<forall>k. m (drop k cs) = None"
    proof
      fix k show "m (drop k cs) = None" using a [rule_format, of "Suc k"] by simp
    qed
    ultimately show "m (c # cs) = None \<and> (\<forall>k. m (drop k cs) = None)" by simp
  next
    assume a: "m (c # cs) = None \<and> (\<forall>k. m (drop k cs) = None)"
    show "\<forall>k. m (drop k (c # cs)) = None"
    proof
      fix k show "m (drop k (c # cs)) = None" using a by (cases k) simp_all
    qed
  qed
  then show ?case using Cons.IH by (simp split: option.splits)
qed

lemma re_search_Some:
  "re_search m t = Some r \<longleftrightarrow> (\<exists>k. m (drop k t) = Some r \<and> (\<forall>j<k. m (drop j t) = None))"
proof (induction t)
  case Nil
  show ?case
  proof
    assume "re_search m [] = Some r"
    then have "m (drop 0 []) = Some r \<and> (\<forall>j<0. m (drop j []) = None)" by simp
    then show "\<exists>k. m (drop k []) = Some r \<and> (\<forall>j<k. m (drop j []) = None)" by blast
  next
    assume "\<exists>k. m (drop k []) = Some r \<and> (\<forall>j<k. m (drop j []) = None)"
    then show "re_search m [] = Some r" by auto
  qed
next
  case (Cons c cs)
  let ?R = "\<lambda>t. \<exists>k. m (drop k t) = Some r \<and> (\<forall>j<k. m (drop j t) = None)"
  have "?R (c # cs) \<longleftrightarrow> m (c # cs) = Some r \<or> (m (c # cs) = None \<and> ?R cs)"
  proof
    assume "?R (c # cs)"
    then obtain k where k: "m (drop k (c # cs)) = Some r" "\<forall>j<k. m (drop j (c # cs)) = None"
      by blast
    show "m (c # cs) = Some r \<or> (m (c # cs) = None \<and> ?R cs)"
    proof (cases k)
      case 0
      then show ?thesis using k(1) by simp
    next
      case (Suc k')
      have "m (c # cs) = None" using k(2) [rule_format, of 0] Suc by simp
      moreover have "m (drop k' cs) = Some r" using k(1) Suc by simp
      moreover have "\<forall>j<k'. m (drop j cs) = None"
      proof (intro allI impI)
        fix j assume "j < k'"
        then show "m (drop j cs) = None" using k(2) [rule_format, of "Suc j"] Suc by simp
      qed
      ultimately show ?thesis by blast
    qed
  next
    assume "m (c # cs) = Some r \<or> (m (c # cs) = None \<and> ?R cs)"
    then show "?R (c # cs)"
    proof
      assume "m (c # cs) = Some r"
      then have "m (drop 0 (c # cs)) = Some r \<and> (\<forall>j<0. m (drop j (c # cs)) = None)" by simp
      then show ?thesis by blast
    next
      assume a: "m (c # cs) = None \<and> ?R cs"
      then obtain k where k: "m (drop k cs) = Some r" "\<forall>j<k. m (drop j cs) = None" by blast
      have "m (drop (Suc k) (c # cs)) = Some r" using k(1) by simp
      moreover have "\<forall>j<Suc k. m (drop j (c # cs)) = None"
      proof (intro allI impI)
        fix j assume "j < Suc k"
        then show "m (drop j (c # cs)) = None" using a k(2) by (cases j) simp_all
      qed
      ultimately show ?thesis by blast
    qed
  qed
  then show ?case using Cons.IH by (auto split: option.splits)
qed

lemma CQ_PREFIX_length: "length CQ_PREFIX = 10"
  by (simp add: CQ_PREFIX_def str_def)

lemma digits_takeWhile:
  assumes "digits isd u" "\<not> isd c"
  shows "takeWhile isd (u @ c # post) = u" "dropWhile isd (u @ c # post) = c # post"
  using assms by (simp_all add: digits_def list_all_iff takeWhile_append2 dropWhile_append2)

lemma match_cq_mention:
  assumes nd: "\<not> isd 93"
  shows "match_cq isd (drop k t) = Some u \<longleftrightarrow> cq_mention_at isd t k u"
proof
  let ?s = "drop k t"
  assume "match_cq isd ?s = Some u"
  then have p: "take 10 ?s = CQ_PREFIX" and u: "u = takeWhile isd (drop 10 ?s)" "u \<noteq> []"
    and r: "take 1 (dropWhile isd (drop 10 ?s)) = [93]"
    by (auto simp: match_cq_def Let_def split: if_splits)
  define rest where "rest = dropWhile isd (drop 10 ?s)"
  have "take 1 rest = [93]" using r by (simp add: rest_def)
  then obtain post where "rest = 93 # post" by (cases rest) auto
  then have post: "dropWhile isd (drop 10 ?s) = 93 # post" by (simp add: rest_def)
  have "takeWhile isd (drop 10 ?s) @ dropWhile isd (drop 10 ?s) = drop 10 ?s"
    by (rule takeWhile_dropWhile_id)
  then have "drop 10 ?s = u @ 93 # post" unfolding post u(1) [symmetric] by (rule sym)
  then have "?s = CQ_PREFIX @ u @ 93 # post"
    using append_take_drop_id [of 10 ?s] p by simp
  moreover have "digits isd u"
    using u by (auto simp: digits_def list_all_iff dest: set_takeWhileD)
  ultimately show "cq_mention_at isd t k u"
    by (simp add: cq_mention_at_def CQ_PREFIX_length)
next
  let ?s = "drop k t"
  assume a: "cq_mention_at isd t k u"
  then have d: "digits isd u" and tk: "take (10 + length u + 1) ?s = CQ_PREFIX @ u @ [93]"
    by (simp_all add: cq_mention_at_def)
  have "?s = CQ_PREFIX @ u @ 93 # drop (10 + length u + 1) ?s"
    using append_take_drop_id [of "10 + length u + 1" ?s] tk by simp
  then obtain post where s: "?s = CQ_PREFIX @ u @ 93 # post" by blast
  have "take 10 ?s = CQ_PREFIX" "drop 10 ?s = u @ 93 # post"
    using s by (simp_all add: CQ_PREFIX_length)
  then show "match_cq isd ?s = Some u"
    using d digits_takeWhile [OF d nd, of post]
    by (simp add: match_cq_def Let_def digits_def)
qed

lemma match_at_mention: "match_at isd (drop k t) = Some u \<longleftrightarrow> at_mention_at isd t k u"
proof
  let ?s = "drop k t"
  assume m: "match_at isd ?s = Some u"
  then obtain cs where s: "?s = 64 # cs" and u: "u = takeWhile isd cs" "u \<noteq> []"
    by (cases ?s) (auto simp: match_at_def split: if_splits)
  have d: "digits isd u" using u by (auto simp: digits_def list_all_iff dest: set_takeWhileD)
  have cs: "cs = u @ dropWhile isd cs" using u(1) by simp
  have dr: "drop (k + 1 + length u) t = dropWhile isd cs"
  proof -
    have "drop (k + 1 + length u) t = drop (1 + length u) ?s" by (simp add: add.commute)
    also have "\<dots> = drop (length u) cs" using s by simp
    also have "\<dots> = dropWhile isd cs" using cs by (metis append_eq_conv_conj)
    finally show ?thesis .
  qed
  have tk: "take (1 + length u) ?s = 64 # u"
    using s cs by (metis One_nat_def add.commute append_eq_conv_conj plus_1_eq_Suc take_Suc_Cons)
  define rest where "rest = dropWhile isd cs"
  have "case rest of [] \<Rightarrow> True | c # x \<Rightarrow> \<not> isd c"
  proof (cases rest)
    case Nil
    then show ?thesis by simp
  next
    case (Cons c x)
    then have "dropWhile isd cs \<noteq> []" by (simp add: rest_def)
    from hd_dropWhile [OF this] show ?thesis using Cons by (simp add: rest_def [symmetric])
  qed
  then have nx: "case dropWhile isd cs of [] \<Rightarrow> True | c # x \<Rightarrow> \<not> isd c"
    by (simp add: rest_def)
  show "at_mention_at isd t k u"
    unfolding at_mention_at_def dr by (intro conjI d tk nx)
next
  let ?s = "drop k t"
  assume a: "at_mention_at isd t k u"
  then have d: "digits isd u" and tk: "take (1 + length u) ?s = 64 # u"
    and nx: "case drop (k + 1 + length u) t of [] \<Rightarrow> True | c # x \<Rightarrow> \<not> isd c"
    by (simp_all add: at_mention_at_def)
  have dd: "drop (1 + length u) ?s = drop (k + 1 + length u) t" by (simp add: add.commute)
  have s: "?s = 64 # u @ drop (k + 1 + length u) t"
    using append_take_drop_id [of "1 + length u" ?s] tk dd by simp
  have "takeWhile isd (u @ drop (k + 1 + length u) t) = u"
  proof (cases "drop (k + 1 + length u) t")
    case Nil
    then show ?thesis using d by (simp add: digits_def list_all_iff)
  next
    case (Cons c x)
    then have "\<not> isd c" using nx by simp
    then show ?thesis using digits_takeWhile(1) [OF d, of c x] Cons by simp
  qed
  then show "match_at isd ?s = Some u"
    using d by (subst s) (simp add: match_at_def digits_def)
qed

lemma search_cq_mention:
  assumes nd: "\<not> isd 93"
  shows "re_search (match_cq isd) t = None \<longleftrightarrow> (\<forall>k v. \<not> cq_mention_at isd t k v)"
    and "re_search (match_cq isd) t = Some u \<longleftrightarrow>
     (\<exists>k. cq_mention_at isd t k u \<and> (\<forall>j<k. \<forall>v. \<not> cq_mention_at isd t j v))"
proof -
  have n: "\<And>j. match_cq isd (drop j t) = None \<longleftrightarrow> (\<forall>v. \<not> cq_mention_at isd t j v)"
    using match_cq_mention [where isd = isd and t = t, OF nd] by (metis option.exhaust option.distinct(1))
  show "re_search (match_cq isd) t = None \<longleftrightarrow> (\<forall>k v. \<not> cq_mention_at isd t k v)"
    by (simp add: re_search_None n)
  show "re_search (match_cq isd) t = Some u \<longleftrightarrow>
     (\<exists>k. cq_mention_at isd t k u \<and> (\<forall>j<k. \<forall>v. \<not> cq_mention_at isd t j v))"
    by (simp add: re_search_Some n match_cq_mention [where isd = isd, OF nd])
qed

lemma search_at_mention:
  "re_search (match_at isd) t = None \<longleftrightarrow> (\<forall>k v. \<not> at_mention_at isd t k v)"
  "re_search (match_at isd) t = Some u \<longleftrightarrow>
     (\<exists>k. at_mention_at isd t k u \<and> (\<forall>j<k. \<forall>v. \<not> at_mention_at isd t j v))"
proof -
  have n: "\<And>j. match_at isd (drop j t) = None \<longleftrightarrow> (\<forall>v. \<not> at_mention_at isd t j v)"
    using match_at_mention [where t = t and isd = isd] by (metis option.exhaust option.distinct(1))
  show "re_search (match_at isd) t = None \<longleftrightarrow> (\<forall>k v. \<not> at_mention_at isd t k v)"
    by (simp add: re_search_None n)
  show "re_search (match_at isd) t = Some u \<longleftrightarrow>
     (\<exists>k. at_mention_at isd t k u \<and> (\<forall>j<k. \<forall>v. \<not> at_mention_at isd t j v))"
    by (simp add: re_search_Some n match_at_mention)
qed

text \<open>
  C9. \<^verbatim>\<open>extract_at_user\<close> scans the raw message text for a mention in one of two forms,
  the structured code \<^verbatim>\<open>[CQ:at,qq=digits]\<close> or a bare \<^verbatim>\<open>@digits\<close> token. The first match
  wins: the structured form is sought first, over the whole text, and within a form the
  leftmost occurrence is taken. The result is \<open>None\<close> exactly when neither form occurs
  anywhere in the text. The digits are those of the class \<^verbatim>\<open>\d\<close>, whatever it holds
  beside the ASCII digits; all that is used of it is that the closing bracket is no digit.
\<close>

theorem extract_at_user_first_match:
  assumes "\<not> isd 93"
  shows "(extract_at_user isd message_text = None \<longleftrightarrow>
      (\<forall>k v. \<not> cq_mention_at isd message_text k v \<and> \<not> at_mention_at isd message_text k v))
   \<and> (extract_at_user isd message_text = Some u \<longleftrightarrow>
        (\<exists>k. cq_mention_at isd message_text k u
              \<and> (\<forall>j<k. \<forall>v. \<not> cq_mention_at isd message_text j v))
      \<or> ((\<forall>j v. \<not> cq_mention_at isd message_text j v)
           \<and> (\<exists>k. at_mention_at isd message_text k u
                    \<and> (\<forall>j<k. \<forall>v. \<not> at_mention_at isd message_text j v))))"
proof (cases "re_search (match_cq isd) message_text")
  case None
  then have e: "extract_at_user isd message_text = re_search (match_at isd) message_text"
    by (simp add: extract_at_user_def)
  have nc: "\<forall>k v. \<not> cq_mention_at isd message_text k v"
    using None by (simp add: search_cq_mention(1) [where isd = isd, OF assms])
  show ?thesis
    unfolding e search_at_mention using nc by blast
next
  case (Some w)
  then have e: "extract_at_user isd message_text = Some w"
    by (simp add: extract_at_user_def)
  obtain k where k: "cq_mention_at isd message_text k w"
      "\<forall>j<k. \<forall>v. \<not> cq_mention_at isd message_text j v"
    using Some by (auto simp: search_cq_mention(2) [where isd = isd, OF assms])
  have uniq: "\<And>k' u'. cq_mention_at isd message_text k' u'
      \<Longrightarrow> \<forall>j<k'. \<forall>v. \<not> cq_mention_at isd message_text j v \<Longrightarrow> u' = w"
  proof -
    fix k' u' assume a: "cq_mention_at isd message_text k' u'"
      "\<forall>j<k'. \<forall>v. \<not> cq_mention_at isd message_text j v"
    then have "re_search (match_cq isd) message_text = Some u'"
      by (auto simp: search_cq_mention(2) [where isd = isd, OF assms])
    then show "u' = w" using Some by simp
  qed
  show ?thesis
    unfolding e using k uniq by blast
qed

text \<open>
  A message with a bare mention before a structured one and another after it: the
  structured one is returned. Without a structured one the leftmost bare mention is
  returned, and digits without the at-sign are no mention. With a class \<^verbatim>\<open>\d\<close> that also
  holds the full-width digits (code points 65296 to 65305), a mention written with them
  is found.
\<close>

theorem extract_at_user_first_match_witness:
  "extract_at_user is_digit (str ''/yhm bob @111 [CQ:at,qq=222] @333'') = Some (str ''222'')
   \<and> at_mention_at is_digit (str ''/yhm bob @111 [CQ:at,qq=222] @333'') 9 (str ''111'')
   \<and> cq_mention_at is_digit (str ''/yhm bob @111 [CQ:at,qq=222] @333'') 14 (str ''222'')
   \<and> extract_at_user is_digit (str ''/yhm bob @111 @333'') = Some (str ''111'')
   \<and> extract_at_user is_digit (str ''/yhm bob 111'') = None
   \<and> (\<exists>k. cq_mention_at is_digit (str ''/yhm bob @111 [CQ:at,qq=222] @333'') k (str ''222'')
            \<and> (\<forall>j<k. \<forall>v. \<not> cq_mention_at is_digit
                               (str ''/yhm bob @111 [CQ:at,qq=222] @333'') j v))
   \<and> extract_at_user (\<lambda>c. is_digit c \<or> (65296 \<le> c \<and> c \<le> 65305))
        (str ''/yhm bob @'' @ [65297, 65298, 65299])
      = Some [65297, 65298, 65299]"
proof -
  have nd: "\<not> is_digit 93" by (simp add: is_digit_def)
  have a: "extract_at_user is_digit (str ''/yhm bob @111 [CQ:at,qq=222] @333'')
      = Some (str ''222'')"
    by code_simp
  have b: "at_mention_at is_digit (str ''/yhm bob @111 [CQ:at,qq=222] @333'') 9 (str ''111'')"
    by code_simp
  have c: "cq_mention_at is_digit (str ''/yhm bob @111 [CQ:at,qq=222] @333'') 14 (str ''222'')"
    by code_simp
  have d: "extract_at_user is_digit (str ''/yhm bob @111 @333'') = Some (str ''111'')"
    by code_simp
  have e: "extract_at_user is_digit (str ''/yhm bob 111'') = None"
    by code_simp
  have f: "\<exists>k. cq_mention_at is_digit (str ''/yhm bob @111 [CQ:at,qq=222] @333'') k (str ''222'')
            \<and> (\<forall>j<k. \<forall>v. \<not> cq_mention_at is_digit
                               (str ''/yhm bob @111 [CQ:at,qq=222] @333'') j v)"
    using extract_at_user_first_match
      [where isd = is_digit and message_text = "str ''/yhm bob @111 [CQ:at,qq=222] @333''"
        and u = "str ''222''", OF nd] a c
    by blast
  have g: "extract_at_user (\<lambda>c. is_digit c \<or> (65296 \<le> c \<and> c \<le> 65305))
        (str ''/yhm bob @'' @ [65297, 65298, 65299])
      = Some [65297, 65298, 65299]"
    by (simp add: extract_at_user_def match_cq_def match_at_def CQ_PREFIX_def str_def
        is_digit_def)
  show ?thesis using a b c d e f g by blast
qed

section \<open>Properties of the reminder task and of the settings\<close>

lemma expiry_queries_plain:
  assumes "dt_valid now"
  shows "get_expiring_users now users days =
       (if 1 \<le> toordinal now + days \<and> toordinal now + days \<le> MAXORDINAL
        then Inr (filter (\<lambda>(user_id, info).
                    expire_date info = Some (date_string (toordinal now + days))) users)
        else Inl OverflowError)"
    and "get_expired_users now users days_ago =
       (if 1 \<le> toordinal now - days_ago \<and> toordinal now - days_ago \<le> MAXORDINAL
        then Inr (filter (\<lambda>(user_id, info).
                    expire_date info = Some (date_string (toordinal now - days_ago))) users)
        else Inl OverflowError)"
  by (simp_all add: get_expiring_users_def get_expired_users_def add_days_valid [OF assms]
      get_users_by_expire_date_filter strftime_ymd_def toordinal_add_days toordinal_sub_days)

lemma send_each_all:
  assumes "\<forall>x \<in> set xs. f x = Inr (g x)"
  shows "send_each f xs = (concat (map g xs), None)"
  using assms by (induction xs) simp_all

lemma scan_soon:
  "send_each remind_soon (filter (\<lambda>(user_id, info). expire_date info = Some d) us)
     = (map (\<lambda>(user_id, info). GroupMessage (ExpiresSoon user_id d (username_line info)))
          (filter (\<lambda>(user_id, info). expire_date info = Some d) us), None)"
proof -
  let ?xs = "filter (\<lambda>(user_id, info). expire_date info = Some d) us"
  have "\<forall>p \<in> set ?xs. remind_soon p
      = Inr [case p of (user_id, info) \<Rightarrow> GroupMessage (ExpiresSoon user_id d (username_line info))]"
    by (auto simp: remind_soon_def)
  from send_each_all [OF this] show ?thesis
    by (simp add: concat_map_singleton)
qed

lemma scan_today:
  "send_each remind_today (filter (\<lambda>(user_id, info). expire_date info = Some d) us)
     = (map (\<lambda>(user_id, info). GroupMessage (ExpiresNow user_id d (username_line info)))
          (filter (\<lambda>(user_id, info). expire_date info = Some d) us), None)"
proof -
  let ?xs = "filter (\<lambda>(user_id, info). expire_date info = Some d) us"
  have "\<forall>p \<in> set ?xs. remind_today p
      = Inr [case p of (user_id, info) \<Rightarrow> GroupMessage (ExpiresNow user_id d (username_line info))]"
    by (auto simp: remind_today_def)
  from send_each_all [OF this] show ?thesis
    by (simp add: concat_map_singleton)
qed

lemma scan_expired:
  "send_each (notify_admins as) (filter (\<lambda>(user_id, info). expire_date info = Some d) us)
     = (concat (map (\<lambda>(user_id, info).
            map (\<lambda>admin_id. PrivateMessage admin_id
                   (ExpiredNotice user_id (or_default (platform_username info) NOT_SET) d)) as)
          (filter (\<lambda>(user_id, info). expire_date info = Some d) us)), None)"
proof -
  let ?xs = "filter (\<lambda>(user_id, info). expire_date info = Some d) us"
  have "\<forall>p \<in> set ?xs. notify_admins as p
      = Inr (case p of (user_id, info) \<Rightarrow>
            map (\<lambda>admin_id. PrivateMessage admin_id
                   (ExpiredNotice user_id (or_default (platform_username info) NOT_SET) d)) as)"
    by (auto simp: notify_admins_def)
  from send_each_all [OF this] show ?thesis .
qed

lemma check_and_send_enabled:
  assumes "2 \<le> toordinal now" "toordinal now + 3 \<le> MAXORDINAL"
    and "cfg_reminder_enabled (config_doc st) \<noteq> Some False"
  shows "check_and_send_reminders now st =
     (map (\<lambda>(user_id, info).
             GroupMessage (ExpiresSoon user_id (date_string (toordinal now + 3))
                             (username_line info)))
        (filter (\<lambda>(user_id, info). expire_date info = Some (date_string (toordinal now + 3)))
           (users_doc st))
      @ map (\<lambda>(user_id, info).
               GroupMessage (ExpiresNow user_id (date_string (toordinal now))
                               (username_line info)))
          (filter (\<lambda>(user_id, info). expire_date info = Some (date_string (toordinal now)))
             (users_doc st))
      @ concat (map (\<lambda>(user_id, info).
                  map (\<lambda>admin_id.
                         PrivateMessage admin_id
                           (ExpiredNotice user_id (or_default (platform_username info) NOT_SET)
                              (date_string (toordinal now - 1))))
                    (admins st))
          (filter (\<lambda>(user_id, info). expire_date info = Some (date_string (toordinal now - 1)))
             (users_doc st))),
      None)"
proof -
  have v: "dt_valid now" using assms(1,2) by (simp add: dt_valid_iff)
  have en: "(case cfg_reminder_enabled (config_doc st) of None \<Rightarrow> True | Some b \<Rightarrow> b)"
    using assms(3) by (cases "cfg_reminder_enabled (config_doc st)") auto
  note q = expiry_queries_plain [OF v]
  have q3: "get_expiring_users now (users_doc st) 3
      = Inr (filter (\<lambda>(user_id, info). expire_date info = Some (date_string (toordinal now + 3)))
               (users_doc st))"
    using assms(1,2) by (simp add: q)
  have q0: "get_expiring_users now (users_doc st) 0
      = Inr (filter (\<lambda>(user_id, info). expire_date info = Some (date_string (toordinal now)))
               (users_doc st))"
    using assms(1,2) q(1) [of "users_doc st" 0] by simp
  have q1: "get_expired_users now (users_doc st) 1
      = Inr (filter (\<lambda>(user_id, info). expire_date info = Some (date_string (toordinal now - 1)))
               (users_doc st))"
    using assms(1,2) by (simp add: q)
  show ?thesis
    unfolding check_and_send_reminders_def Let_def q3 q0 q1
    using en
    by (simp add: scan_and_send_def and_then_def scan_soon scan_today scan_expired)
qed

text \<open>
  C7. While the loop runs, each turn reads the configuration from disk (the in-memory copy
  plays no part, so a changed \<open>reminder_enabled\<close> takes effect without a restart); if
  \<open>reminder_enabled\<close> is false it sends nothing in that turn; otherwise it performs exactly
  the three scans (the broadcast for expiry in three days, the broadcast for expiry today,
  the private notice to every admin for expiry one day ago), in this order; and then it
  sleeps for 24 hours. The clock is taken to be at least a day after 0001-01-01 and three
  days before 9999-12-31.
\<close>

theorem reminder_turn:
  assumes "2 \<le> toordinal now" "toordinal now + 3 \<le> MAXORDINAL"
  shows "reminder_iteration now st =
           (if cfg_reminder_enabled (config_doc st) = Some False then []
            else map Send (three_scans now st)) @ [Sleep (24 * 60 * 60)]
       \<and> reminder_iteration now (st\<lparr>config_mem := c\<rparr>) = reminder_iteration now st
       \<and> (reminder_task_running st \<longrightarrow>
            reminder_loop ((now, st) # later) = reminder_iteration now st @ reminder_loop later)"
proof -
  have a: "reminder_iteration now st =
           (if cfg_reminder_enabled (config_doc st) = Some False then []
            else map Send (three_scans now st)) @ [Sleep (24 * 60 * 60)]"
  proof (cases "cfg_reminder_enabled (config_doc st) = Some False")
    case True
    then show ?thesis
      by (simp add: reminder_iteration_def check_and_send_reminders_def)
  next
    case False
    show ?thesis
      using False
      by (simp add: reminder_iteration_def check_and_send_enabled [OF assms False]
          three_scans_def expiring_on_def)
  qed
  have b: "reminder_iteration now (st\<lparr>config_mem := c\<rparr>) = reminder_iteration now st"
    by (simp add: reminder_iteration_def check_and_send_reminders_def)
  show ?thesis using a b by simp
qed

text \<open>
  A turn at noon of 2024-06-15 over three users expiring on 2024-06-18, 2024-06-15 and
  2024-06-14, with two admins; and the same turn with \<open>reminder_enabled\<close> false on disk
  while the copy in memory still says true.
\<close>

theorem reminder_turn_witness:
  "strftime_ymd (midnight 739052 + 43200000000) = str ''2024-06-15''
   \<and> reminder_iteration (midnight 739052 + 43200000000)
        \<lparr>users_doc =
            [(str ''10001'', \<lparr>platform_username = Some (str ''ann''),
                               start_date = Some (str ''2024-01-01''),
                               expire_date = Some (str ''2024-06-18'')\<rparr>),
             (str ''10002'', \<lparr>platform_username = Some [],
                               start_date = Some (str ''2024-02-01''),
                               expire_date = Some (str ''2024-06-15'')\<rparr>),
             (str ''10003'', \<lparr>platform_username = Some (str ''cy''),
                               start_date = Some (str ''2024-03-01''),
                               expire_date = Some (str ''2024-06-14'')\<rparr>)],
          config_doc = \<lparr>cfg_admins = Some [str ''90001'', str ''90002''],
            cfg_reminder_enabled = Some True, cfg_reminder_days_before = Some [3, 0],
            cfg_expired_check_days = Some 1, cfg_group_id = Some []\<rparr>,
          config_mem = \<lparr>cfg_admins = Some [str ''90001'', str ''90002''],
            cfg_reminder_enabled = Some True, cfg_reminder_days_before = Some [3, 0],
            cfg_expired_check_days = Some 1, cfg_group_id = Some []\<rparr>,
          admins = [str ''90001'', str ''90002''], group_id = [],
          reminder_task_running = True\<rparr>
     = [Send (GroupMessage (ExpiresSoon (str ''10001'') (str ''2024-06-18'') (Some (str ''ann'')))),
        Send (GroupMessage (ExpiresNow (str ''10002'') (str ''2024-06-15'') None)),
        Send (PrivateMessage (str ''90001'')
                (ExpiredNotice (str ''10003'') (str ''cy'') (str ''2024-06-14''))),
        Send (PrivateMessage (str ''90002'')
                (ExpiredNotice (str ''10003'') (str ''cy'') (str ''2024-06-14''))),
        Sleep 86400]
   \<and> reminder_iteration (midnight 739052 + 43200000000)
        \<lparr>users_doc =
            [(str ''10001'', \<lparr>platform_username = Some (str ''ann''),
                               start_date = Some (str ''2024-01-01''),
                               expire_date = Some (str ''2024-06-18'')\<rparr>),
             (str ''10002'', \<lparr>platform_username = Some [],
                               start_date = Some (str ''2024-02-01''),
                               expire_date = Some (str ''2024-06-15'')\<rparr>),
             (str ''10003'', \<lparr>platform_username = Some (str ''cy''),
                               start_date = Some (str ''2024-03-01''),
                               expire_date = Some (str ''2024-06-14'')\<rparr>)],
          config_doc = \<lparr>cfg_admins = Some [str ''90001'', str ''90002''],
            cfg_reminder_enabled = Some False, cfg_reminder_days_before = Some [3, 0],
            cfg_expired_check_days = Some 1, cfg_group_id = Some []\<rparr>,
          config_mem = \<lparr>cfg_admins = Some [str ''90001'', str ''90002''],
            cfg_reminder_enabled = Some True, cfg_reminder_days_before = Some [3, 0],
            cfg_expired_check_days = Some 1, cfg_group_id = Some []\<rparr>,
          admins = [str ''90001'', str ''90002''], group_id = [],
          reminder_task_running = True\<rparr>
     = [Sleep 86400]"
proof -
  let ?now = "midnight 739052 + 43200000000"
  let ?on = "\<lparr>users_doc =
            [(str ''10001'', \<lparr>platform_username = Some (str ''ann''),
                               start_date = Some (str ''2024-01-01''),
                               expire_date = Some (str ''2024-06-18'')\<rparr>),
             (str ''10002'', \<lparr>platform_username = Some [],
                               start_date = Some (str ''2024-02-01''),
                               expire_date = Some (str ''2024-06-15'')\<rparr>),
             (str ''10003'', \<lparr>platform_username = Some (str ''cy''),
                               start_date = Some (str ''2024-03-01''),
                               expire_date = Some (str ''2024-06-14'')\<rparr>)],
          config_doc = \<lparr>cfg_admins = Some [str ''90001'', str ''90002''],
            cfg_reminder_enabled = Some True, cfg_reminder_days_before = Some [3, 0],
            cfg_expired_check_days = Some 1, cfg_group_id = Some []\<rparr>,
          config_mem = \<lparr>cfg_admins = Some [str ''90001'', str ''90002''],
            cfg_reminder_enabled = Some True, cfg_reminder_days_before = Some [3, 0],
            cfg_expired_check_days = Some 1, cfg_group_id = Some []\<rparr>,
          admins = [str ''90001'', str ''90002''], group_id = [],
          reminder_task_running = True\<rparr>"
  let ?off = "\<lparr>users_doc =
            [(str ''10001'', \<lparr>platform_username = Some (str ''ann''),
                               start_date = Some (str ''2024-01-01''),
                               expire_date = Some (str ''2024-06-18'')\<rparr>),
             (str ''10002'', \<lparr>platform_username = Some [],
                               start_date = Some (str ''2024-02-01''),
                               expire_date = Some (str ''2024-06-15'')\<rparr>),
             (str ''10003'', \<lparr>platform_username = Some (str ''cy''),
                               start_date = Some (str ''2024-03-01''),
                               expire_date = Some (str ''2024-06-14'')\<rparr>)],
          config_doc = \<lparr>cfg_admins = Some [str ''90001'', str ''90002''],
            cfg_reminder_enabled = Some False, cfg_reminder_days_before = Some [3, 0],
            cfg_expired_check_days = Some 1, cfg_group_id = Some []\<rparr>,
          config_mem = \<lparr>cfg_admins = Some [str ''90001'', str ''90002''],
            cfg_reminder_enabled = Some True, cfg_reminder_days_before = Some [3, 0],
            cfg_expired_check_days = Some 1, cfg_group_id = Some []\<rparr>,
          admins = [str ''90001'', str ''90002''], group_id = [],
          reminder_task_running = True\<rparr>"
  have t: "strftime_ymd ?now = str ''2024-06-15''" by code_simp
  have r: "2 \<le> toordinal ?now" "toordinal ?now + 3 \<le> MAXORDINAL" by code_simp+
  have s: "three_scans ?now ?on
     = [GroupMessage (ExpiresSoon (str ''10001'') (str ''2024-06-18'') (Some (str ''ann''))),
        GroupMessage (ExpiresNow (str ''10002'') (str ''2024-06-15'') None),
        PrivateMessage (str ''90001'')
                (ExpiredNotice (str ''10003'') (str ''cy'') (str ''2024-06-14'')),
        PrivateMessage (str ''90002'')
                (ExpiredNotice (str ''10003'') (str ''cy'') (str ''2024-06-14''))]"
    by code_simp
  show ?thesis
    using reminder_turn [OF r, of ?on] reminder_turn [OF r, of ?off] t s
    by simp
qed



end
